theory Spec2Isabelle
  imports Complex_Main "HOL-Library.Word"
begin

unbundle bit_operations_syntax

section \<open>Numeric types of the firmware\<close>

text \<open>
  The firmware computes on 32-bit \<^verbatim>\<open>float\<close> signals and on \<^verbatim>\<open>uint16_t\<close> and
  \<^verbatim>\<open>uint32_t\<close> counters. Unsigned integers are words of their width. A finite
  \<^verbatim>\<open>float\<close> is modelled by the real number it denotes (rounding of the 24-bit
  mantissa is not modelled); where the code can produce the quiet NaN of \<^verbatim>\<open>math.h\<close>
  the value is a \<open>cfloat\<close>. A quotient is the quotient of the reals; the sampling
  frequencies and time constants that the firmware divides by are not zero, and
  neither are those of the examples below.
\<close>

type_synonym u16 = "16 word"
type_synonym u32 = "32 word"

datatype cfloat = Val real | NaN

text \<open>Conversion of a \<^verbatim>\<open>float\<close> to an integer type in C discards the fraction.\<close>

definition trunc :: "real \<Rightarrow> int" where
  "trunc r = (if r < 0 then - \<lfloor>- r\<rfloor> else \<lfloor>r\<rfloor>)"

text \<open>
  The casts \<^verbatim>\<open>(uint16_t) val\<close> and \<^verbatim>\<open>(uint32_t) val\<close>. C defines them only while the
  truncated value fits the target type; outside that range (and for NaN) the model
  reduces modulo the width, and no theorem below depends on that choice.
\<close>

definition f2u16 :: "cfloat \<Rightarrow> u16" where
  "f2u16 v = (case v of Val r \<Rightarrow> word_of_int (trunc r) | NaN \<Rightarrow> 0)"

definition f2u32 :: "cfloat \<Rightarrow> u32" where
  "f2u32 v = (case v of Val r \<Rightarrow> word_of_int (trunc r) | NaN \<Rightarrow> 0)"

text \<open>The casts \<^verbatim>\<open>(float) x\<close> of an unsigned integer.\<close>

definition u16_2f :: "u16 \<Rightarrow> cfloat" where
  "u16_2f w = Val (real (unat w))"

definition u32_2f :: "u32 \<Rightarrow> cfloat" where
  "u32_2f w = Val (real (unat w))"

section \<open>Parameters bank (parameters.c)\<close>

text \<open>
  \<^verbatim>\<open>param_type_t\<close> is declared in \<^verbatim>\<open>parameters.h\<close>. The code dispatches on three
  enumerators; \<open>is_other_type\<close> stands for any other value of the enumeration, which
  takes the \<^verbatim>\<open>default\<close> branches.
\<close>

datatype param_type_t = is_uint16_t | is_uint32_t | is_float | is_other_type

text \<open>
  One slot of \<^verbatim>\<open>g_parameters\<close>. The union of pointers \<^verbatim>\<open>p_val\<close> is one address, read
  through the view that the slot's type selects.
\<close>

record param_t =
  param_id :: nat
  param_type :: param_type_t
  num_elements :: u16
  p_val :: nat

text \<open>
  The backing storage belongs to other modules. It is modelled as a memory with one
  view per element type, addressed in elements: \<^verbatim>\<open>*(p + n)\<close> reads cell \<open>p + n\<close> of the
  view of the pointer's type.
\<close>

record memory =
  mem_u16 :: "nat \<Rightarrow> u16"
  mem_u32 :: "nat \<Rightarrow> u32"
  mem_f :: "nat \<Rightarrow> cfloat"

type_synonym param_bank = "nat \<Rightarrow> param_t"

definition init_param :: "nat \<Rightarrow> param_type_t \<Rightarrow> u16 \<Rightarrow> nat \<Rightarrow> param_bank \<Rightarrow> param_bank" where
  "init_param i ty n_elems p_param g =
     (if n_elems > 0
      then g(i := \<lparr>param_id = i, param_type = ty, num_elements = n_elems, p_val = p_param\<rparr>)
      else g)"

text \<open>\<^verbatim>\<open>set_param\<close> returns its status together with the memory it leaves.\<close>

definition set_param :: "param_bank \<Rightarrow> nat \<Rightarrow> u16 \<Rightarrow> cfloat \<Rightarrow> memory \<Rightarrow> u16 \<times> memory" where
  "set_param g i n val m =
     (if n < num_elements (g i) then
        (case param_type (g i) of
           is_uint16_t \<Rightarrow> (1, m\<lparr>mem_u16 := (mem_u16 m)(p_val (g i) + unat n := f2u16 val)\<rparr>)
         | is_uint32_t \<Rightarrow> (1, m\<lparr>mem_u32 := (mem_u32 m)(p_val (g i) + unat n := f2u32 val)\<rparr>)
         | is_float \<Rightarrow> (1, m\<lparr>mem_f := (mem_f m)(p_val (g i) + unat n := val)\<rparr>)
         | is_other_type \<Rightarrow> (0, m))
      else (0, m))"

definition get_param :: "param_bank \<Rightarrow> memory \<Rightarrow> nat \<Rightarrow> u16 \<Rightarrow> cfloat" where
  "get_param g m i n =
     (if n < num_elements (g i) then
        (case param_type (g i) of
           is_uint16_t \<Rightarrow> u16_2f (mem_u16 m (p_val (g i) + unat n))
         | is_uint32_t \<Rightarrow> u32_2f (mem_u32 m (p_val (g i) + unat n))
         | is_float \<Rightarrow> mem_f m (p_val (g i) + unat n)
         | is_other_type \<Rightarrow> NaN)
      else NaN)"

text \<open>A bank and a memory as the C runtime zero-initialises them.\<close>

definition g_parameters_0 :: param_bank where
  "g_parameters_0 = (\<lambda>_. \<lparr>param_id = 0, param_type = is_uint16_t, num_elements = 0, p_val = 0\<rparr>)"

definition memory_0 :: memory where
  "memory_0 = \<lparr>mem_u16 = (\<lambda>_. 0), mem_u32 = (\<lambda>_. 0), mem_f = (\<lambda>_. Val 0)\<rparr>"

text \<open>Example bank: slot 0 bound to two \<^verbatim>\<open>uint16_t\<close> cells at address 0.\<close>

definition bank_u16_example :: param_bank where
  "bank_u16_example = init_param 0 is_uint16_t 2 0 g_parameters_0"


section \<open>Signal generator (siggen.c)\<close>

text \<open>
  Locations of \<^verbatim>\<open>float\<close> cells that a stage holds a pointer to: the net and output
  signals of \<^verbatim>\<open>g_controller_ctom\<close>, the setpoint and reference of a power-supply
  module, the amplitude and offset of the signal generator, the file's
  \<^verbatim>\<open>dummy_float\<close>, and cells of the other core (\<open>Mtoc_signal\<close>).
\<close>

datatype sig_ptr =
    Net_signal nat
  | Output_signal nat
  | Ps_setpoint nat
  | Ps_reference nat
  | Siggen_amplitude
  | Siggen_offset
  | Dummy_float
  | Mtoc_signal nat

datatype siggen_type_t = Sine | DampedSine | Trapezoidal

text \<open>The function pointer \<^verbatim>\<open>p_run_siggen\<close> names one of the three run functions.\<close>

datatype run_siggen_t = Run_unset | Run_sine | Run_dampedsine | Run_trapezoidal

text \<open>
  \<^verbatim>\<open>siggen_t\<close> with the fields the code uses. The arrays \<^verbatim>\<open>aux_param\<close> and
  \<^verbatim>\<open>aux_var\<close> are functions of the index.
\<close>

record siggen_t =
  enable :: u16
  sig_type :: siggen_type_t
  num_cycles :: u16
  freq_sampling :: real
  freq :: real
  amplitude :: real
  offset :: real
  n :: real
  aux_param :: "nat \<Rightarrow> real"
  aux_var :: "nat \<Rightarrow> real"
  p_run_siggen :: run_siggen_t
  p_out :: sig_ptr

text \<open>
  Modelled from the spec: \<^verbatim>\<open>siggen.h\<close> with the array sizes is not among the sources.
  The spec counts six auxiliary derived variables, and the code reads the auxiliary
  parameters 0 to 2 and writes the variables 0 to 5.
\<close>

definition NUM_SIGGEN_AUX_PARAM :: nat where
  "NUM_SIGGEN_AUX_PARAM = 3"

definition NUM_SIGGEN_AUX_VAR :: nat where
  "NUM_SIGGEN_AUX_VAR = 6"

text \<open>The macro \<^verbatim>\<open>PI\<close> of siggen.c is a decimal literal.\<close>

definition PI :: real where
  "PI = 314159265358979323846 / 100000000000000000000"

text \<open>\<^verbatim>\<open>roundf\<close> rounds to the nearest integer, halves away from zero.\<close>

definition roundf :: "real \<Rightarrow> real" where
  "roundf x = (if x < 0 then - of_int \<lfloor>- x + 1/2\<rfloor> else of_int \<lfloor>x + 1/2\<rfloor>)"

definition fabs :: "real \<Rightarrow> real" where
  "fabs x = \<bar>x\<bar>"

definition default_aux_param :: "nat \<Rightarrow> real" where
  "default_aux_param = (\<lambda>_. 0)"

definition scale_siggen :: "siggen_t \<Rightarrow> real \<Rightarrow> real \<Rightarrow> siggen_t" where
  "scale_siggen s amp offs = s\<lparr>amplitude := amp, offset := offs\<rparr>"

definition set_siggen_freq_sine :: "siggen_t \<Rightarrow> siggen_t" where
  "set_siggen_freq_sine s =
     (let s1 = (if num_cycles s = 0 then s\<lparr>freq := fabs (roundf (freq s))\<rparr> else s)
      in s1\<lparr>aux_var := (aux_var s1)(0 := 2 * PI * freq s1 / freq_sampling s1)\<rparr>)"

definition set_siggen_freq :: "siggen_t \<Rightarrow> siggen_t" where
  "set_siggen_freq s =
     (case sig_type s of
        Sine \<Rightarrow> set_siggen_freq_sine s
      | DampedSine \<Rightarrow> set_siggen_freq_sine s
      | Trapezoidal \<Rightarrow> s\<lparr>freq := 0\<rparr>)"

text \<open>
  The part of the \<^verbatim>\<open>Sine\<close> and \<^verbatim>\<open>DampedSine\<close> cases of \<^verbatim>\<open>cfg_siggen\<close> that both
  have: the phase and the total number of samples.
\<close>

definition cfg_phase_and_length :: "siggen_t \<Rightarrow> siggen_t" where
  "cfg_phase_and_length s =
     (let s1 = s\<lparr>aux_var := (aux_var s)(1 := PI * aux_param s 0 / 180)\<rparr>;
          s2 = s1\<lparr>aux_var := (aux_var s1)(2 := real (unat (num_cycles s1))
                                  + (aux_param s1 1 - aux_param s1 0) / 360)\<rparr>;
          s3 = (if aux_param s2 0 > aux_param s2 1
                then s2\<lparr>aux_var := (aux_var s2)(2 := aux_var s2 2 + 1)\<rparr> else s2)
      in s3\<lparr>aux_var := (aux_var s3)(2 := aux_var s3 2 * (freq_sampling s3 / freq s3))\<rparr>)"

definition cfg_siggen ::
  "siggen_t \<Rightarrow> siggen_type_t \<Rightarrow> u16 \<Rightarrow> real \<Rightarrow> real \<Rightarrow> real \<Rightarrow> (nat \<Rightarrow> real) \<Rightarrow> siggen_t" where
  "cfg_siggen s ty cycles f amp offs p_aux_param =
     (if enable s = 0 then
        (let s1 = s\<lparr>sig_type := ty, num_cycles := cycles, n := 0, freq := f\<rparr>;
             s2 = scale_siggen s1 amp offs;
             s3 = set_siggen_freq s2;
             s4 = s3\<lparr>aux_param :=
                       (\<lambda>i. if i < NUM_SIGGEN_AUX_PARAM then p_aux_param i else aux_param s3 i)\<rparr>;
             s5 = s4\<lparr>aux_var := (\<lambda>i. if i < NUM_SIGGEN_AUX_VAR then 0 else aux_var s4 i)\<rparr>
         in case ty of
              Sine \<Rightarrow> (cfg_phase_and_length s5)\<lparr>p_run_siggen := Run_sine\<rparr>
            | DampedSine \<Rightarrow>
                (let s6 = cfg_phase_and_length s5
                 in s6\<lparr>aux_var := (aux_var s6)(3 := - (1 / aux_param s6 2) / freq_sampling s6),
                       p_run_siggen := Run_dampedsine\<rparr>)
            | Trapezoidal \<Rightarrow>
                (let a0 = aux_param s5 0 * freq_sampling s5;
                     a1 = (aux_param s5 0 + aux_param s5 1) * freq_sampling s5;
                     a2 = (aux_param s5 0 + aux_param s5 1 + aux_param s5 2) * freq_sampling s5;
                     a3 = amp / a0;
                     a4 = amp / (aux_param s5 2 * freq_sampling s5)
                 in s5\<lparr>aux_var := (aux_var s5)(0 := a0, 1 := a1, 2 := a2, 3 := a3, 4 := a4, 5 := 0),
                       p_run_siggen := Run_trapezoidal\<rparr>))
      else s)"

definition init_siggen :: "siggen_t \<Rightarrow> real \<Rightarrow> sig_ptr \<Rightarrow> siggen_t" where
  "init_siggen s fs out =
     (if enable s = 0
      then (cfg_siggen (s\<lparr>freq_sampling := fs\<rparr>) Sine 1 1 1 0 default_aux_param)\<lparr>p_out := out\<rparr>
      else s)"

definition reset_siggen :: "siggen_t \<Rightarrow> siggen_t" where
  "reset_siggen s = s\<lparr>n := 0\<rparr>"

definition enable_siggen :: "siggen_t \<Rightarrow> siggen_t" where
  "enable_siggen s =
     (if enable s = 0 then
        (let s1 = reset_siggen s;
             s2 = (case sig_type s1 of
                     Sine \<Rightarrow> set_siggen_freq s1
                   | DampedSine \<Rightarrow> set_siggen_freq s1
                   | Trapezoidal \<Rightarrow> s1)
         in s2\<lparr>enable := 1\<rparr>)
      else s)"

definition disable_siggen :: "siggen_t \<Rightarrow> siggen_t" where
  "disable_siggen s = s\<lparr>enable := 0\<rparr>"

text \<open>
  A run function takes the generator together with the cell that \<^verbatim>\<open>p_out\<close> points to
  and returns both as it leaves them.
\<close>

definition run_siggen_sine :: "siggen_t \<times> real \<Rightarrow> siggen_t \<times> real" where
  "run_siggen_sine = (\<lambda>(s, out).
     if enable s \<noteq> 0 then
       (let out1 = amplitude s * sin (aux_var s 0 * n s + aux_var s 1) + offset s;
            s1 = s\<lparr>n := n s + 1\<rparr>
        in if aux_var s1 2 > 0
           then (if n s1 \<ge> aux_var s1 2 then (disable_siggen s1, out1) else (s1, out1))
           else if n s1 \<ge> freq_sampling s1
           then ((set_siggen_freq s1)\<lparr>n := 0\<rparr>, out1)
           else (s1, out1))
     else (s, out))"

definition run_siggen_dampedsine :: "siggen_t \<times> real \<Rightarrow> siggen_t \<times> real" where
  "run_siggen_dampedsine = (\<lambda>(s, out).
     if enable s \<noteq> 0 then
       (if n s < aux_var s 2
        then (s\<lparr>n := n s + 1\<rparr>,
              amplitude s * exp (aux_var s 3 * n s) * sin (aux_var s 0 * n s + aux_var s 1)
                + offset s)
        else (disable_siggen s, out))
     else (s, out))"

definition run_siggen_trapezoidal :: "siggen_t \<times> real \<Rightarrow> siggen_t \<times> real" where
  "run_siggen_trapezoidal = (\<lambda>(s, out).
     if enable s \<noteq> 0 then
       (if aux_var s 5 < real (unat (num_cycles s)) then
          (let (s1, out1) =
                 (if n s < aux_var s 0 then (s, n s * aux_var s 3 + offset s)
                  else if n s < aux_var s 1 then (s, amplitude s + offset s)
                  else if n s < aux_var s 2
                  then (s, aux_var s 4 * (aux_var s 1 - n s) + amplitude s + offset s)
                  else (s\<lparr>aux_var := (aux_var s)(5 := aux_var s 5 + 1), n := 0\<rparr>, offset s))
           in (s1\<lparr>n := n s1 + 1\<rparr>, out1))
        else ((disable_siggen s)\<lparr>aux_var := (aux_var s)(5 := 0)\<rparr>, out))
     else (s, out))"

text \<open>The call \<^verbatim>\<open>p_siggen->p_run_siggen(p_siggen)\<close> through the function pointer.\<close>

definition run_siggen :: "siggen_t \<times> real \<Rightarrow> siggen_t \<times> real" where
  "run_siggen = (\<lambda>(s, out).
     case p_run_siggen s of
       Run_sine \<Rightarrow> run_siggen_sine (s, out)
     | Run_dampedsine \<Rightarrow> run_siggen_dampedsine (s, out)
     | Run_trapezoidal \<Rightarrow> run_siggen_trapezoidal (s, out)
     | Run_unset \<Rightarrow> (s, out))"

text \<open>A generator as the C runtime zero-initialises it.\<close>

definition siggen_0 :: siggen_t where
  "siggen_0 = \<lparr>enable = 0, sig_type = Sine, num_cycles = 0, freq_sampling = 0, freq = 0,
              amplitude = 0, offset = 0, n = 0, aux_param = (\<lambda>_. 0), aux_var = (\<lambda>_. 0),
              p_run_siggen = Run_unset, p_out = Dummy_float\<rparr>"

text \<open>
  The trapezoid of the spec's test: rise 1 s, plateau 2 s, fall 1 s, amplitude 10,
  offset 0, one sample per second, \<open>c\<close> cycles; initialised, configured and enabled.
\<close>

definition trapezoid_aux_param :: "nat \<Rightarrow> real" where
  "trapezoid_aux_param = (\<lambda>i. if i = 0 then 1 else if i = 1 then 2 else if i = 2 then 1 else 0)"


text \<open>
  A damped sine in continuous mode (\<open>num_cycles = 0\<close>) at 1 Hz, two samples per second,
  from phase 0 to phase 360, time constant 1 s; initialised, configured and enabled.
\<close>

definition full_turn_aux_param :: "nat \<Rightarrow> real" where
  "full_turn_aux_param = (\<lambda>i. if i = 0 then 0 else if i = 1 then 360 else if i = 2 then 1 else 0)"

definition dampedsine_example :: siggen_t where
  "dampedsine_example =
     enable_siggen (cfg_siggen (init_siggen siggen_0 2 (Ps_reference 0))
                      DampedSine 0 1 1 0 full_turn_aux_param)"

text \<open>
  The same generator after two samples, when \<open>n\<close> has reached the sampling frequency,
  and with the frequency field rewritten to 2.5 Hz in the meantime.
\<close>

definition dampedsine_at_boundary :: siggen_t where
  "dampedsine_at_boundary =
     (fst (run_siggen (run_siggen (dampedsine_example, 0))))\<lparr>freq := 5/2\<rparr>"

text \<open>
  A sine with the same configuration, after one sample, one sample before \<open>n\<close> reaches
  the sampling frequency, and with the frequency field rewritten to 2.5 Hz.
\<close>

definition sine_full_turn_example :: siggen_t where
  "sine_full_turn_example =
     enable_siggen (cfg_siggen (init_siggen siggen_0 2 (Ps_reference 0))
                      Sine 0 1 1 0 full_turn_aux_param)"

definition sine_full_turn_before_boundary :: siggen_t where
  "sine_full_turn_before_boundary =
     (fst (run_siggen (sine_full_turn_example, 0)))\<lparr>freq := 5/2\<rparr>"

text \<open>
  A sine in continuous mode with equal start and end phase, two samples per second,
  after one sample, with the frequency field rewritten to 2.5 Hz in the meantime.
\<close>

definition sine_example :: siggen_t where
  "sine_example =
     enable_siggen (cfg_siggen (init_siggen siggen_0 2 (Ps_reference 0))
                      Sine 0 1 1 0 default_aux_param)"

definition sine_before_boundary :: siggen_t where
  "sine_before_boundary = (fst (run_siggen (sine_example, 0)))\<lparr>freq := 5/2\<rparr>"


section \<open>Power-supply modules and event manager (event_manager.c)\<close>

text \<open>
  Operating states: the enumeration \<^verbatim>\<open>ps_state_t\<close> of \<^verbatim>\<open>ps_modules.h\<close>, with \<open>SlowRef\<close>,
  which the module files assign, at its place between \<open>Initializing\<close> and
  \<open>SlowRefSync\<close>. \<open>state_ord\<close> is the value of an enumerator, which the C comparison
  \<^verbatim>\<open>state < Initializing\<close> compares.
\<close>

datatype ps_state_t = Off | Interlock | Initializing | SlowRef | SlowRefSync | RmpWfm | MigWfm | Cycle

fun state_ord :: "ps_state_t \<Rightarrow> nat" where
  "state_ord Off = 0"
| "state_ord Interlock = 1"
| "state_ord Initializing = 2"
| "state_ord SlowRef = 3"
| "state_ord SlowRefSync = 4"
| "state_ord RmpWfm = 5"
| "state_ord MigWfm = 6"
| "state_ord Cycle = 7"

text \<open>
  An entry of \<^verbatim>\<open>g_ipc_ctom.ps_module\<close>: the state and open-loop bits of
  \<^verbatim>\<open>ps_status\<close>, setpoint, reference and the sticky bitmasks. The callbacks held in
  the C struct are arguments of the functions that call them.
\<close>

record ps_module_t =
  ps_state :: ps_state_t
  openloop :: bool
  ps_setpoint :: real
  ps_reference :: real
  ps_hard_interlock :: u32
  ps_soft_interlock :: u32
  ps_alarms :: u32

record event_t =
  flag :: u16
  counter :: u32
  debounce_count :: u32
  reset_count :: u32

text \<open>The array \<^verbatim>\<open>event[NUM_MAX_EVENT_COUNTER]\<close> is a function of the index.\<close>

record interlocks_t =
  num_events :: u16
  event :: "nat \<Rightarrow> event_t"

record event_manager_t =
  timebase_flag :: u16
  freq_timebase :: real
  hard_interlocks :: interlocks_t
  soft_interlocks :: interlocks_t

definition MAX_DEBOUNCE_TIME_US :: u32 where
  "MAX_DEBOUNCE_TIME_US = 5000000"

definition MAX_RESET_TIME_US :: u32 where
  "MAX_RESET_TIME_US = 10000000"

text \<open>
  Modelled from the spec: \<^verbatim>\<open>event_manager.h\<close> with \<^verbatim>\<open>NUM_MAX_EVENT_COUNTER\<close> is not among
  the sources. Interlock reasons are bit positions in a 32-bit mask, and
  \<open>lut_bit_position\<close> below has 32 entries.
\<close>

definition NUM_MAX_EVENT_COUNTER :: nat where
  "NUM_MAX_EVENT_COUNTER = 32"

definition lut_bit_position :: "u32 list" where
  "lut_bit_position =
     [0x00000001, 0x00000002, 0x00000004, 0x00000008,
      0x00000010, 0x00000020, 0x00000040, 0x00000080,
      0x00000100, 0x00000200, 0x00000400, 0x00000800,
      0x00001000, 0x00002000, 0x00004000, 0x00008000,
      0x00010000, 0x00020000, 0x00040000, 0x00080000,
      0x00100000, 0x00200000, 0x00400000, 0x00800000,
      0x01000000, 0x02000000, 0x04000000, 0x08000000,
      0x10000000, 0x20000000, 0x40000000, 0x80000000]"

text \<open>
  Modelled from the spec: the macro \<^verbatim>\<open>SATURATE(var, max, min)\<close> is defined in a header
  that is not among the sources. It limits \<open>var\<close> to \<open>max\<close> from above and to \<open>min\<close>
  from below, the upper limit first.
\<close>

definition SATURATE :: "'a::linorder \<Rightarrow> 'a \<Rightarrow> 'a \<Rightarrow> 'a" where
  "SATURATE var mx mn = (if var > mx then mx else if var < mn then mn else var)"

text \<open>The cast \<^verbatim>\<open>(uint32_t)\<close> of a \<^verbatim>\<open>float\<close> expression.\<close>

definition to_u32 :: "real \<Rightarrow> u32" where
  "to_u32 r = f2u32 (Val r)"

definition max_reset_counts :: "real \<Rightarrow> u32" where
  "max_reset_counts f = to_u32 ((f * real (unat MAX_RESET_TIME_US)) * (1 / 1000000))"

text \<open>
  The body of the loop of \<open>init_event_manager\<close> for one set of interlocks and one
  index \<open>i\<close>: the event as it leaves the iteration, from the time base, the number of
  interlocks of the set and the cells \<^verbatim>\<open>*(p_debounce_time_us + i)\<close> and
  \<^verbatim>\<open>*(p_reset_time_us + i)\<close>.
\<close>

definition init_event :: "real \<Rightarrow> u16 \<Rightarrow> (nat \<Rightarrow> u32) \<Rightarrow> (nat \<Rightarrow> u32) \<Rightarrow> nat \<Rightarrow> event_t" where
  "init_event f num_itlks p_debounce_time_us p_reset_time_us i =
     (if i < unat num_itlks then
        (let debounce_time_us = SATURATE (p_debounce_time_us i) MAX_DEBOUNCE_TIME_US 0;
             reset_time_us = p_reset_time_us i;
             d = to_u32 ((f * real (unat debounce_time_us)) * (1 / 1000000));
             r = to_u32 ((f * real (unat reset_time_us)) * (1 / 1000000))
         in \<lparr>flag = 0, counter = 0, debounce_count = d,
             reset_count = SATURATE r (max_reset_counts f) (d + 1)\<rparr>)
      else \<lparr>flag = 0, counter = 0, debounce_count = 0, reset_count = 0\<rparr>)"

definition init_event_manager_iter ::
  "real \<Rightarrow> u16 \<Rightarrow> u16 \<Rightarrow> (nat \<Rightarrow> u32) \<Rightarrow> (nat \<Rightarrow> u32) \<Rightarrow> (nat \<Rightarrow> u32) \<Rightarrow> (nat \<Rightarrow> u32)
     \<Rightarrow> nat \<Rightarrow> event_manager_t \<Rightarrow> event_manager_t" where
  "init_event_manager_iter f num_hard num_soft p_hd p_hr p_sd p_sr i em =
     em\<lparr>hard_interlocks := (hard_interlocks em)
           \<lparr>event := (event (hard_interlocks em))(i := init_event f num_hard p_hd p_hr i)\<rparr>,
        soft_interlocks := (soft_interlocks em)
           \<lparr>event := (event (soft_interlocks em))(i := init_event f num_soft p_sd p_sr i)\<rparr>\<rparr>"

text \<open>\<open>init_event_manager\<close> on the array \<^verbatim>\<open>g_event_manager\<close>, a function of the module id.\<close>

definition init_event_manager ::
  "nat \<Rightarrow> real \<Rightarrow> u16 \<Rightarrow> u16 \<Rightarrow> (nat \<Rightarrow> u32) \<Rightarrow> (nat \<Rightarrow> u32) \<Rightarrow> (nat \<Rightarrow> u32) \<Rightarrow> (nat \<Rightarrow> u32)
     \<Rightarrow> (nat \<Rightarrow> event_manager_t) \<Rightarrow> (nat \<Rightarrow> event_manager_t)" where
  "init_event_manager i f num_hard num_soft p_hd p_hr p_sd p_sr g =
     (let em = (g i)\<lparr>timebase_flag := 0, freq_timebase := f,
                     hard_interlocks := (hard_interlocks (g i))\<lparr>num_events := num_hard\<rparr>,
                     soft_interlocks := (soft_interlocks (g i))\<lparr>num_events := num_soft\<rparr>\<rparr>
      in g(i := fold (init_event_manager_iter f num_hard num_soft p_hd p_hr p_sd p_sr)
                  [0..<NUM_MAX_EVENT_COUNTER] em))"

text \<open>
  One event in one pass of \<open>run_interlocks_debouncing\<close>:
  \<^verbatim>\<open>if(flag) if(++counter >= reset_count) { flag = 0; counter = 0; }\<close>
\<close>

definition debounce_event :: "event_t \<Rightarrow> event_t" where
  "debounce_event e =
     (if flag e \<noteq> 0 then
        (if counter e + 1 \<ge> reset_count e
         then e\<lparr>flag := 0, counter := 0\<rparr>
         else e\<lparr>counter := counter e + 1\<rparr>)
      else e)"

definition debounce_interlocks :: "interlocks_t \<Rightarrow> interlocks_t" where
  "debounce_interlocks il =
     fold (\<lambda>i il'. il'\<lparr>event := (event il')(i := debounce_event (event il' i))\<rparr>)
       [0..<unat (num_events il)] il"


section \<open>Control framework and the state of the controller core\<close>

text \<open>
  Modelled from the spec: the DSP library (\<^verbatim>\<open>control/dsp\<close>) and the PWM driver are not
  among the sources. A stage holds its coefficients, its internal state and
  non-owning references to its input and output signals: the slew-rate limiter
  keeps its last output, the PI controller its integral accumulator, the error
  stage nothing.
\<close>

record dsp_srlim_t =
  max_slewrate :: real
  srlim_freq_sampling :: real
  srlim_last_out :: real
  srlim_in :: sig_ptr
  srlim_out :: sig_ptr

record dsp_error_t =
  error_pos :: sig_ptr
  error_neg :: sig_ptr
  error_out :: sig_ptr

record dsp_pi_t =
  kp :: real
  ki :: real
  pi_freq_sampling :: real
  u_max :: real
  u_min :: real
  u_int :: real
  pi_in :: sig_ptr
  pi_out :: sig_ptr

text \<open>
  What the interlock and power-supply code reads and writes: the event managers, the
  modules of \<^verbatim>\<open>g_ipc_ctom\<close>, the PWM driver (output enable and channel-A duty per
  modulator), the digital outputs, the signals and DSP stages of
  \<^verbatim>\<open>g_controller_ctom\<close>, the signal generator and the waveform reference (of a type
  \<open>'w\<close> left open). \<open>turn_off_calls\<close> is not a variable of the firmware: it counts the
  calls made through the \<^verbatim>\<open>turn_off\<close> pointer of a module.
\<close>

record 'w world =
  g_event_manager :: "nat \<Rightarrow> event_manager_t"
  ps_module :: "nat \<Rightarrow> ps_module_t"
  turn_off_calls :: nat
  pwm_output_enabled :: "nat \<Rightarrow> bool"
  pwm_duty_chA :: "nat \<Rightarrow> real"
  gpdo :: "nat \<Rightarrow> bool"
  net_signals :: "nat \<Rightarrow> real"
  output_signals :: "nat \<Rightarrow> real"
  mtoc_signals :: "nat \<Rightarrow> real"
  dummy_float :: real
  dsp_srlim :: "nat \<Rightarrow> dsp_srlim_t"
  dsp_error :: "nat \<Rightarrow> dsp_error_t"
  dsp_pi :: "nat \<Rightarrow> dsp_pi_t"
  siggen :: siggen_t
  wfmref :: 'w

definition run_interlocks_debouncing :: "nat \<Rightarrow> 'w world \<Rightarrow> 'w world" where
  "run_interlocks_debouncing i w =
     (let em = g_event_manager w i
      in if timebase_flag em \<noteq> 0 then
           w\<lparr>g_event_manager := (g_event_manager w)
                (i := em\<lparr>hard_interlocks := debounce_interlocks (hard_interlocks em),
                         soft_interlocks := debounce_interlocks (soft_interlocks em),
                         timebase_flag := 0\<rparr>)\<rparr>
         else w)"

text \<open>Access to one event of a module's hard or soft interlocks.\<close>

definition hard_event :: "'w world \<Rightarrow> nat \<Rightarrow> nat \<Rightarrow> event_t" where
  "hard_event w i k = event (hard_interlocks (g_event_manager w i)) k"

definition soft_event :: "'w world \<Rightarrow> nat \<Rightarrow> nat \<Rightarrow> event_t" where
  "soft_event w i k = event (soft_interlocks (g_event_manager w i)) k"

definition upd_hard_event :: "nat \<Rightarrow> nat \<Rightarrow> (event_t \<Rightarrow> event_t) \<Rightarrow> 'w world \<Rightarrow> 'w world" where
  "upd_hard_event i k f w =
     w\<lparr>g_event_manager := (g_event_manager w)
          (i := (g_event_manager w i)
             \<lparr>hard_interlocks := (hard_interlocks (g_event_manager w i))
                \<lparr>event := (event (hard_interlocks (g_event_manager w i)))
                            (k := f (event (hard_interlocks (g_event_manager w i)) k))\<rparr>\<rparr>)\<rparr>"

definition upd_soft_event :: "nat \<Rightarrow> nat \<Rightarrow> (event_t \<Rightarrow> event_t) \<Rightarrow> 'w world \<Rightarrow> 'w world" where
  "upd_soft_event i k f w =
     w\<lparr>g_event_manager := (g_event_manager w)
          (i := (g_event_manager w i)
             \<lparr>soft_interlocks := (soft_interlocks (g_event_manager w i))
                \<lparr>event := (event (soft_interlocks (g_event_manager w i)))
                            (k := f (event (soft_interlocks (g_event_manager w i)) k))\<rparr>\<rparr>)\<rparr>"

definition upd_ps_module :: "nat \<Rightarrow> (ps_module_t \<Rightarrow> ps_module_t) \<Rightarrow> 'w world \<Rightarrow> 'w world" where
  "upd_ps_module i f w = w\<lparr>ps_module := (ps_module w)(i := f (ps_module w i))\<rparr>"

text \<open>
  The call \<^verbatim>\<open>g_ipc_ctom.ps_module[id].turn_off(id)\<close>: the callback \<open>toff\<close> runs, and the
  call is counted.
\<close>

definition call_turn_off :: "(nat \<Rightarrow> 'w world \<Rightarrow> 'w world) \<Rightarrow> nat \<Rightarrow> 'w world \<Rightarrow> 'w world" where
  "call_turn_off toff i w = (toff i w)\<lparr>turn_off_calls := Suc (turn_off_calls w)\<rparr>"

text \<open>
  \<open>set_hard_interlock\<close> and \<open>set_soft_interlock\<close>. The build option \<^verbatim>\<open>USE_ITLK\<close> is the
  argument \<open>use_itlk\<close>, the module's \<^verbatim>\<open>turn_off\<close> callback the argument \<open>toff\<close>. The
  table \<open>lut_bit_position\<close> is read at \<open>itlk\<close>, which is below 32 for every interlock
  that a module declares.
\<close>

definition set_hard_interlock ::
  "bool \<Rightarrow> (nat \<Rightarrow> 'w world \<Rightarrow> 'w world) \<Rightarrow> nat \<Rightarrow> u32 \<Rightarrow> 'w world \<Rightarrow> 'w world" where
  "set_hard_interlock use_itlk toff i itlk w =
     (if unat itlk < unat (num_events (hard_interlocks (g_event_manager w i))) then
        (let w1 = upd_hard_event i (unat itlk) (\<lambda>e. e\<lparr>flag := 1\<rparr>) w
         in if counter (hard_event w1 i (unat itlk)) \<ge> debounce_count (hard_event w1 i (unat itlk))
            then
              (let w2 =
                 (if ps_hard_interlock (ps_module w1 i) AND lut_bit_position ! unat itlk = 0
                  then
                    (let w3 = (if use_itlk
                               then upd_ps_module i (\<lambda>m. m\<lparr>ps_state := Interlock\<rparr>)
                                      (call_turn_off toff i w1)
                               else w1)
                     in upd_ps_module i
                          (\<lambda>m. m\<lparr>ps_hard_interlock :=
                                    ps_hard_interlock m OR lut_bit_position ! unat itlk\<rparr>) w3)
                  else w1)
               in upd_hard_event i (unat itlk) (\<lambda>e. e\<lparr>flag := 0, counter := 0\<rparr>) w2)
            else w1)
      else w)"

definition set_soft_interlock ::
  "bool \<Rightarrow> (nat \<Rightarrow> 'w world \<Rightarrow> 'w world) \<Rightarrow> nat \<Rightarrow> u32 \<Rightarrow> 'w world \<Rightarrow> 'w world" where
  "set_soft_interlock use_itlk toff i itlk w =
     (if unat itlk < unat (num_events (soft_interlocks (g_event_manager w i))) then
        (let w1 = upd_soft_event i (unat itlk) (\<lambda>e. e\<lparr>flag := 1\<rparr>) w
         in if counter (soft_event w1 i (unat itlk)) \<ge> debounce_count (soft_event w1 i (unat itlk))
            then
              (let w2 =
                 (if ps_soft_interlock (ps_module w1 i) AND lut_bit_position ! unat itlk = 0
                  then
                    (let w3 = (if use_itlk
                               then upd_ps_module i (\<lambda>m. m\<lparr>ps_state := Interlock\<rparr>)
                                      (call_turn_off toff i w1)
                               else w1)
                     in upd_ps_module i
                          (\<lambda>m. m\<lparr>ps_soft_interlock :=
                                    ps_soft_interlock m OR lut_bit_position ! unat itlk\<rparr>) w3)
                  else w1)
               in upd_soft_event i (unat itlk) (\<lambda>e. e\<lparr>flag := 0, counter := 0\<rparr>) w2)
            else w1)
      else w)"


section \<open>DSP stages and PWM driver\<close>

text \<open>Reading and writing a \<^verbatim>\<open>float\<close> cell through a pointer.\<close>

definition read_sig :: "sig_ptr \<Rightarrow> 'w world \<Rightarrow> real" where
  "read_sig p w =
     (case p of
        Net_signal i \<Rightarrow> net_signals w i
      | Output_signal i \<Rightarrow> output_signals w i
      | Ps_setpoint i \<Rightarrow> ps_setpoint (ps_module w i)
      | Ps_reference i \<Rightarrow> ps_reference (ps_module w i)
      | Siggen_amplitude \<Rightarrow> amplitude (siggen w)
      | Siggen_offset \<Rightarrow> offset (siggen w)
      | Dummy_float \<Rightarrow> dummy_float w
      | Mtoc_signal i \<Rightarrow> mtoc_signals w i)"

definition write_sig :: "sig_ptr \<Rightarrow> real \<Rightarrow> 'w world \<Rightarrow> 'w world" where
  "write_sig p v w =
     (case p of
        Net_signal i \<Rightarrow> w\<lparr>net_signals := (net_signals w)(i := v)\<rparr>
      | Output_signal i \<Rightarrow> w\<lparr>output_signals := (output_signals w)(i := v)\<rparr>
      | Ps_setpoint i \<Rightarrow> upd_ps_module i (\<lambda>m. m\<lparr>ps_setpoint := v\<rparr>) w
      | Ps_reference i \<Rightarrow> upd_ps_module i (\<lambda>m. m\<lparr>ps_reference := v\<rparr>) w
      | Siggen_amplitude \<Rightarrow> w\<lparr>siggen := (siggen w)\<lparr>amplitude := v\<rparr>\<rparr>
      | Siggen_offset \<Rightarrow> w\<lparr>siggen := (siggen w)\<lparr>offset := v\<rparr>\<rparr>
      | Dummy_float \<Rightarrow> w\<lparr>dummy_float := v\<rparr>
      | Mtoc_signal i \<Rightarrow> w\<lparr>mtoc_signals := (mtoc_signals w)(i := v)\<rparr>)"

text \<open>
  Modelled from the spec: the reset functions of the DSP library are not among the
  sources. The reset of a stage clears its internal state and forces its output to
  zero without touching its configuration.
\<close>

definition reset_dsp_srlim :: "nat \<Rightarrow> 'w world \<Rightarrow> 'w world" where
  "reset_dsp_srlim i w =
     write_sig (srlim_out (dsp_srlim w i)) 0
       (w\<lparr>dsp_srlim := (dsp_srlim w)(i := (dsp_srlim w i)\<lparr>srlim_last_out := 0\<rparr>)\<rparr>)"

definition reset_dsp_error :: "nat \<Rightarrow> 'w world \<Rightarrow> 'w world" where
  "reset_dsp_error i w = write_sig (error_out (dsp_error w i)) 0 w"

definition reset_dsp_pi :: "nat \<Rightarrow> 'w world \<Rightarrow> 'w world" where
  "reset_dsp_pi i w =
     write_sig (pi_out (dsp_pi w i)) 0
       (w\<lparr>dsp_pi := (dsp_pi w)(i := (dsp_pi w i)\<lparr>u_int := 0\<rparr>)\<rparr>)"

text \<open>
  Modelled from the spec: the PWM driver is not among the sources. It is a sink that
  accepts a duty cycle per modulator, and whose outputs can be disabled per
  modulator.
\<close>

definition disable_pwm_output :: "nat \<Rightarrow> 'w world \<Rightarrow> 'w world" where
  "disable_pwm_output i w = w\<lparr>pwm_output_enabled := (pwm_output_enabled w)(i := False)\<rparr>"

definition set_pwm_duty_chA :: "nat \<Rightarrow> real \<Rightarrow> 'w world \<Rightarrow> 'w world" where
  "set_pwm_duty_chA i duty w = w\<lparr>pwm_duty_chA := (pwm_duty_chA w)(i := duty)\<rparr>"

text \<open>Digital outputs: \<^verbatim>\<open>SET_GPDOn\<close> and \<^verbatim>\<open>CLEAR_GPDOn\<close>.\<close>

definition SET_GPDO :: "nat \<Rightarrow> 'w world \<Rightarrow> 'w world" where
  "SET_GPDO k w = w\<lparr>gpdo := (gpdo w)(k := True)\<rparr>"

definition CLEAR_GPDO :: "nat \<Rightarrow> 'w world \<Rightarrow> 'w world" where
  "CLEAR_GPDO k w = w\<lparr>gpdo := (gpdo w)(k := False)\<rparr>"

text \<open>A sequence of statements, run from the first to the last.\<close>

definition statements :: "('a \<Rightarrow> 'a) list \<Rightarrow> 'a \<Rightarrow> 'a" where
  "statements fs = fold (\<lambda>f. f) fs"

section \<open>FAP-4P module (fap_4p.c)\<close>

text \<open>
  \<open>reset_controller\<close>. The macro \<^verbatim>\<open>LOOP_STATE\<close> and the function \<^verbatim>\<open>reset_wfmref\<close>
  are not among the sources; they are the arguments \<open>loop_state\<close> and
  \<open>reset_wfmref\<close>. The modulators \<^verbatim>\<open>PWM_MODULATOR_IGBT_1_MOD_1\<close> to
  \<^verbatim>\<open>PWM_MODULATOR_IGBT_2_MOD_4\<close> are \<^verbatim>\<open>pwm_regs[0]\<close> to \<^verbatim>\<open>pwm_regs[7]\<close>, and the DSP
  stages are named by their index in \<^verbatim>\<open>g_controller_ctom.dsp_modules\<close>.
\<close>

definition fap_4p_reset_controller :: "bool \<Rightarrow> ('w \<Rightarrow> 'w) \<Rightarrow> 'w world \<Rightarrow> 'w world" where
  "fap_4p_reset_controller loop_state reset_wfmref =
     statements
       [set_pwm_duty_chA 0 0,
        set_pwm_duty_chA 1 0,
        set_pwm_duty_chA 2 0,
        set_pwm_duty_chA 3 0,
        set_pwm_duty_chA 4 0,
        set_pwm_duty_chA 5 0,
        set_pwm_duty_chA 6 0,
        set_pwm_duty_chA 7 0,
        upd_ps_module 0 (\<lambda>m. m\<lparr>openloop := loop_state\<rparr>),
        upd_ps_module 0 (\<lambda>m. m\<lparr>ps_setpoint := 0\<rparr>),
        upd_ps_module 0 (\<lambda>m. m\<lparr>ps_reference := 0\<rparr>),
        reset_dsp_srlim 0,
        reset_dsp_error 0,
        reset_dsp_pi 0,
        reset_dsp_pi 1,
        reset_dsp_pi 2,
        reset_dsp_pi 3,
        reset_dsp_pi 4,
        reset_dsp_srlim 1,
        reset_dsp_srlim 2,
        (\<lambda>w. w\<lparr>siggen := disable_siggen (siggen w)\<rparr>),
        (\<lambda>w. w\<lparr>wfmref := reset_wfmref (wfmref w)\<rparr>)]"

text \<open>The first assignments of \<open>reset_controller\<close>, before the resets of the stages.\<close>

definition reset_controller_assignments :: "bool \<Rightarrow> 'w world \<Rightarrow> 'w world" where
  "reset_controller_assignments ls w = statements
       [set_pwm_duty_chA 0 0, set_pwm_duty_chA 1 0, set_pwm_duty_chA 2 0, set_pwm_duty_chA 3 0,
        set_pwm_duty_chA 4 0, set_pwm_duty_chA 5 0, set_pwm_duty_chA 6 0, set_pwm_duty_chA 7 0,
        upd_ps_module 0 (\<lambda>m. m\<lparr>openloop := ls\<rparr>),
        upd_ps_module 0 (\<lambda>m. m\<lparr>ps_setpoint := 0\<rparr>),
        upd_ps_module 0 (\<lambda>m. m\<lparr>ps_reference := 0\<rparr>)] w"

text \<open>
  \<open>turn_off\<close>. The contactors of the four modules are opened through the digital
  outputs 1 to 4; the delay leaves the state as it is.
\<close>

definition fap_4p_turn_off :: "bool \<Rightarrow> ('w \<Rightarrow> 'w) \<Rightarrow> nat \<Rightarrow> 'w world \<Rightarrow> 'w world" where
  "fap_4p_turn_off loop_state reset_wfmref dummy w =
     (let w1 = statements
                 [disable_pwm_output 0,
                  disable_pwm_output 1,
                  disable_pwm_output 2,
                  disable_pwm_output 3,
                  disable_pwm_output 4,
                  disable_pwm_output 5,
                  disable_pwm_output 6,
                  disable_pwm_output 7,
                  CLEAR_GPDO 1,
                  CLEAR_GPDO 2,
                  CLEAR_GPDO 3,
                  CLEAR_GPDO 4,
                  fap_4p_reset_controller loop_state reset_wfmref] w
      in if ps_state (ps_module w1 0) \<noteq> Interlock
         then upd_ps_module 0 (\<lambda>m. m\<lparr>ps_state := Off\<rparr>) w1
         else w1)"

text \<open>
  \<open>reset_interlocks\<close>. The status of a contactor is the digital input \<open>gpdi\<close> that the
  function reads once per module (inputs 5, 7, 13 and 15); a contactor that reports
  closed gets a pulse on its output.
\<close>

definition pulse_contactor :: "(nat \<Rightarrow> bool) \<Rightarrow> nat \<Rightarrow> nat \<Rightarrow> 'w world \<Rightarrow> 'w world" where
  "pulse_contactor gpdi pin_in pin_out w =
     (if gpdi pin_in then statements [SET_GPDO pin_out, CLEAR_GPDO pin_out] w else w)"

definition fap_4p_reset_interlocks :: "(nat \<Rightarrow> bool) \<Rightarrow> nat \<Rightarrow> 'w world \<Rightarrow> 'w world" where
  "fap_4p_reset_interlocks gpdi dummy w =
     (let w1 = statements
                 [upd_ps_module 0 (\<lambda>m. m\<lparr>ps_hard_interlock := 0\<rparr>),
                  upd_ps_module 0 (\<lambda>m. m\<lparr>ps_soft_interlock := 0\<rparr>),
                  upd_ps_module 0 (\<lambda>m. m\<lparr>ps_alarms := 0\<rparr>)] w
      in if state_ord (ps_state (ps_module w1 0)) < state_ord Initializing
         then statements
                [pulse_contactor gpdi 5 1,
                 pulse_contactor gpdi 7 2,
                 pulse_contactor gpdi 13 3,
                 pulse_contactor gpdi 15 4,
                 upd_ps_module 0 (\<lambda>m. m\<lparr>ps_state := Off\<rparr>)] w1
         else w1)"

section \<open>FAC-2P4S AC/DC module (fac_2p4s_acdc.c)\<close>

definition MOD_A_ID :: nat where
  "MOD_A_ID = 0"

definition MOD_B_ID :: nat where
  "MOD_B_ID = 1"

definition fac_2p4s_acdc_reset_interlocks :: "nat \<Rightarrow> 'w world \<Rightarrow> 'w world" where
  "fac_2p4s_acdc_reset_interlocks dummy w =
     (let w1 = statements
                 [upd_ps_module MOD_A_ID (\<lambda>m. m\<lparr>ps_hard_interlock := 0\<rparr>),
                  upd_ps_module MOD_A_ID (\<lambda>m. m\<lparr>ps_soft_interlock := 0\<rparr>),
                  upd_ps_module MOD_B_ID (\<lambda>m. m\<lparr>ps_hard_interlock := 0\<rparr>),
                  upd_ps_module MOD_B_ID (\<lambda>m. m\<lparr>ps_soft_interlock := 0\<rparr>)] w
      in if state_ord (ps_state (ps_module w1 MOD_A_ID)) < state_ord Initializing
         then statements
                [upd_ps_module MOD_A_ID (\<lambda>m. m\<lparr>ps_state := Off\<rparr>),
                 upd_ps_module MOD_B_ID (\<lambda>m. m\<lparr>ps_state := Off\<rparr>)] w1
         else w1)"

section \<open>Committed interlocks\<close>

text \<open>
  An interlock is committed in a module when its bit is present in the module's sticky
  bitmask: the test that \<open>set_hard_interlock\<close> and \<open>set_soft_interlock\<close> make before
  they call \<^verbatim>\<open>turn_off\<close>.
\<close>

definition hard_committed :: "'w world \<Rightarrow> nat \<Rightarrow> u32 \<Rightarrow> bool" where
  "hard_committed w i itlk \<longleftrightarrow>
     ps_hard_interlock (ps_module w i) AND lut_bit_position ! unat itlk \<noteq> 0"

definition soft_committed :: "'w world \<Rightarrow> nat \<Rightarrow> u32 \<Rightarrow> bool" where
  "soft_committed w i itlk \<longleftrightarrow>
     ps_soft_interlock (ps_module w i) AND lut_bit_position ! unat itlk \<noteq> 0"

text \<open>
  States in which a call of \<open>set_hard_interlock\<close> (\<open>set_soft_interlock\<close>) does not
  commit: the interlock is committed already, or is not one of the module's
  interlocks, or its counter is below the debounce count.
\<close>

definition hard_quiet :: "'w world \<Rightarrow> nat \<Rightarrow> u32 \<Rightarrow> bool" where
  "hard_quiet w i itlk \<longleftrightarrow>
     hard_committed w i itlk
     \<or> \<not> unat itlk < unat (num_events (hard_interlocks (g_event_manager w i)))
     \<or> counter (hard_event w i (unat itlk)) < debounce_count (hard_event w i (unat itlk))"

definition soft_quiet :: "'w world \<Rightarrow> nat \<Rightarrow> u32 \<Rightarrow> bool" where
  "soft_quiet w i itlk \<longleftrightarrow>
     soft_committed w i itlk
     \<or> \<not> unat itlk < unat (num_events (soft_interlocks (g_event_manager w i)))
     \<or> counter (soft_event w i (unat itlk)) < debounce_count (soft_event w i (unat itlk))"

text \<open>The macro \<^verbatim>\<open>SET_INTERLOCKS_TIMEBASE_FLAG(i)\<close> of the time-base interrupt.\<close>

definition SET_INTERLOCKS_TIMEBASE_FLAG :: "nat \<Rightarrow> 'w world \<Rightarrow> 'w world" where
  "SET_INTERLOCKS_TIMEBASE_FLAG i w =
     w\<lparr>g_event_manager := (g_event_manager w)(i := (g_event_manager w i)\<lparr>timebase_flag := 1\<rparr>)\<rparr>"

text \<open>One period of the time base: the interrupt sets the flag, the background loop ticks.\<close>

definition timebase_period :: "nat \<Rightarrow> 'w world \<Rightarrow> 'w world" where
  "timebase_period i w = run_interlocks_debouncing i (SET_INTERLOCKS_TIMEBASE_FLAG i w)"

section \<open>Example states\<close>

text \<open>
  A controller after start-up with every variable zero, the stages of the FAP-4P
  wired to distinct net signals, and two hard interlocks and one soft interlock
  initialised at a time base of 1 kHz.
\<close>

definition event_manager_0 :: event_manager_t where
  "event_manager_0 =
     \<lparr>timebase_flag = 0, freq_timebase = 0,
      hard_interlocks = \<lparr>num_events = 0,
         event = (\<lambda>_. \<lparr>flag = 0, counter = 0, debounce_count = 0, reset_count = 0\<rparr>)\<rparr>,
      soft_interlocks = \<lparr>num_events = 0,
         event = (\<lambda>_. \<lparr>flag = 0, counter = 0, debounce_count = 0, reset_count = 0\<rparr>)\<rparr>\<rparr>"

definition debounce_times_example :: "nat \<Rightarrow> u32" where
  "debounce_times_example = (\<lambda>i. if i = 0 then 2000 else 0)"

definition reset_times_example :: "nat \<Rightarrow> u32" where
  "reset_times_example = (\<lambda>i. if i = 0 then 5000 else 4000000000)"

definition world_0 :: "unit world" where
  "world_0 =
     \<lparr>g_event_manager =
        init_event_manager 0 1000 2 1 debounce_times_example reset_times_example
          debounce_times_example reset_times_example (\<lambda>_. event_manager_0),
      ps_module = (\<lambda>_. \<lparr>ps_state = Off, openloop = False, ps_setpoint = 0, ps_reference = 0,
                        ps_hard_interlock = 0, ps_soft_interlock = 0, ps_alarms = 0\<rparr>),
      turn_off_calls = 0,
      pwm_output_enabled = (\<lambda>_. False),
      pwm_duty_chA = (\<lambda>_. 0),
      gpdo = (\<lambda>_. False),
      net_signals = (\<lambda>_. 0),
      output_signals = (\<lambda>_. 0),
      mtoc_signals = (\<lambda>_. 0),
      dummy_float = 0,
      dsp_srlim = (\<lambda>i. \<lparr>max_slewrate = 1, srlim_freq_sampling = 1000, srlim_last_out = 0,
                        srlim_in = Mtoc_signal i,
                        srlim_out = (if i = 0 then Ps_reference 0
                                     else if i = 1 then Siggen_amplitude else Siggen_offset)\<rparr>),
      dsp_error = (\<lambda>i. \<lparr>error_pos = Ps_reference 0, error_neg = Net_signal 3,
                        error_out = Net_signal 4\<rparr>),
      dsp_pi = (\<lambda>i. \<lparr>kp = 1, ki = 1, pi_freq_sampling = 1000, u_max = 1, u_min = 0, u_int = 0,
                     pi_in = Net_signal (4 + i),
                     pi_out = (if i = 0 then Net_signal 5 else Net_signal (23 + i))\<rparr>),
      siggen = siggen_0,
      wfmref = ()\<rparr>"

text \<open>The same controller running: state \<open>SlowRef\<close>, outputs enabled, duties and stages loaded.\<close>

definition world_running :: "unit world" where
  "world_running =
     world_0\<lparr>ps_module := (\<lambda>_. \<lparr>ps_state = SlowRef, openloop = False, ps_setpoint = 7,
                                ps_reference = 6, ps_hard_interlock = 0, ps_soft_interlock = 0,
                                ps_alarms = 0\<rparr>),
             pwm_output_enabled := (\<lambda>_. True),
             pwm_duty_chA := (\<lambda>_. 1/2),
             gpdo := (\<lambda>_. True),
             net_signals := (\<lambda>_. 3),
             dsp_pi := (\<lambda>i. (dsp_pi world_0 i)\<lparr>u_int := 1/4\<rparr>),
             dsp_srlim := (\<lambda>i. (dsp_srlim world_0 i)\<lparr>srlim_last_out := 6\<rparr>),
             siggen := sine_example\<rparr>"

text \<open>
  The same controller latched in \<open>Interlock\<close> with hard interlocks 0 and 1 and soft
  interlock 0 committed.
\<close>

definition world_interlocked :: "unit world" where
  "world_interlocked =
     world_0\<lparr>ps_module := (\<lambda>_. \<lparr>ps_state = Interlock, openloop = False, ps_setpoint = 0,
                                ps_reference = 0, ps_hard_interlock = 3, ps_soft_interlock = 1,
                                ps_alarms = 0\<rparr>)\<rparr>"


text \<open>
  The running controller with hard interlock 0 and soft interlock 0 raised once and
  two periods of the time base gone by, so that both counters have reached the
  debounce count of 2.
\<close>

definition world_debounced :: "unit world" where
  "world_debounced =
     timebase_period 0 (timebase_period 0
       (set_soft_interlock True (fap_4p_turn_off True (\<lambda>u. u)) 0 0
          (set_hard_interlock True (fap_4p_turn_off True (\<lambda>u. u)) 0 0 world_running)))"


section \<open>Properties of the parameters bank\<close>

lemma trunc_of_int [simp]: "trunc (of_int k) = k"
  by (simp add: trunc_def)

lemma trunc_nonneg: "0 \<le> r \<Longrightarrow> trunc r = \<lfloor>r\<rfloor>"
  by (simp add: trunc_def)

lemma unat_f2u16: "0 \<le> r \<Longrightarrow> r < 65536 \<Longrightarrow> unat (f2u16 (Val r)) = nat \<lfloor>r\<rfloor>"
proof -
  assume a: "0 \<le> r" and b: "r < 65536"
  have "0 \<le> \<lfloor>r\<rfloor>" using a by simp
  moreover have "\<lfloor>r\<rfloor> < 65536" using b by (simp add: floor_less_iff)
  ultimately show ?thesis
    using a by (simp add: f2u16_def trunc_nonneg unat_eq_nat_uint uint_word_of_int take_bit_int_eq_self)
qed

lemma unat_f2u32: "0 \<le> r \<Longrightarrow> r < 4294967296 \<Longrightarrow> unat (f2u32 (Val r)) = nat \<lfloor>r\<rfloor>"
proof -
  assume a: "0 \<le> r" and b: "r < 4294967296"
  have "0 \<le> \<lfloor>r\<rfloor>" using a by simp
  moreover have "\<lfloor>r\<rfloor> < 4294967296" using b by (simp add: floor_less_iff)
  ultimately show ?thesis
    using a by (simp add: f2u32_def trunc_nonneg unat_eq_nat_uint uint_word_of_int take_bit_int_eq_self)
qed

text \<open>
  C10. A call of \<open>init_param\<close> with \<open>num_elements = 0\<close> leaves the whole bank, hence the
  slot \<open>g_parameters[id]\<close> with its id, type, element count and pointer, as it was, and
  \<open>get_param\<close> and \<open>set_param\<close> answer afterwards as they did before.
\<close>

theorem init_param_zero_elements_unchanged:
  "init_param i ty 0 p g = g
   \<and> param_id (init_param i ty 0 p g i) = param_id (g i)
   \<and> param_type (init_param i ty 0 p g i) = param_type (g i)
   \<and> num_elements (init_param i ty 0 p g i) = num_elements (g i)
   \<and> p_val (init_param i ty 0 p g i) = p_val (g i)
   \<and> get_param (init_param i ty 0 p g) m j k = get_param g m j k
   \<and> set_param (init_param i ty 0 p g) j k v m = set_param g j k v m"
  by (simp add: init_param_def)

text \<open>
  C6 (as the code has it). After \<open>init_param\<close> has bound slot \<open>i\<close> with a positive
  element count \<open>cnt\<close>: for \<open>k < cnt\<close>, \<open>set_param\<close> returns 1 and \<open>get_param\<close> then
  returns \<open>v\<close> itself for a \<^verbatim>\<open>float\<close> parameter, and \<open>v\<close> with its fraction discarded
  for a \<^verbatim>\<open>uint16_t\<close> or \<^verbatim>\<open>uint32_t\<close> parameter (for \<open>v\<close> within the range of that
  type); for \<open>k \<ge> cnt\<close>, \<open>set_param\<close> returns 0 and leaves the memory as it was, and
  \<open>get_param\<close> returns NaN.
\<close>

theorem set_param_get_param_roundtrip:
  assumes "0 < cnt" and "b = init_param i ty cnt p g"
  shows "(k < cnt \<and> ty = is_float \<longrightarrow>
            fst (set_param b i k v m) = 1
          \<and> get_param b (snd (set_param b i k v m)) i k = v)
       \<and> (k < cnt \<and> ty = is_uint16_t \<and> 0 \<le> r \<and> r < 65536 \<longrightarrow>
            fst (set_param b i k (Val r) m) = 1
          \<and> get_param b (snd (set_param b i k (Val r) m)) i k = Val (of_int \<lfloor>r\<rfloor>))
       \<and> (k < cnt \<and> ty = is_uint32_t \<and> 0 \<le> r \<and> r < 4294967296 \<longrightarrow>
            fst (set_param b i k (Val r) m) = 1
          \<and> get_param b (snd (set_param b i k (Val r) m)) i k = Val (of_int \<lfloor>r\<rfloor>))
       \<and> (cnt \<le> k \<longrightarrow> set_param b i k v m = (0, m) \<and> get_param b m' i k = NaN)"
proof -
  have slot: "b i = \<lparr>param_id = i, param_type = ty, num_elements = cnt, p_val = p\<rparr>"
    using assms by (simp add: init_param_def)
  have fl: "k < cnt \<and> ty = is_float \<longrightarrow>
            fst (set_param b i k v m) = 1
          \<and> get_param b (snd (set_param b i k v m)) i k = v"
    by (simp add: set_param_def get_param_def slot)
  have w16: "k < cnt \<and> ty = is_uint16_t \<and> 0 \<le> r \<and> r < 65536 \<longrightarrow>
            fst (set_param b i k (Val r) m) = 1
          \<and> get_param b (snd (set_param b i k (Val r) m)) i k = Val (of_int \<lfloor>r\<rfloor>)"
    by (simp add: set_param_def get_param_def slot u16_2f_def unat_f2u16)
  have w32: "k < cnt \<and> ty = is_uint32_t \<and> 0 \<le> r \<and> r < 4294967296 \<longrightarrow>
            fst (set_param b i k (Val r) m) = 1
          \<and> get_param b (snd (set_param b i k (Val r) m)) i k = Val (of_int \<lfloor>r\<rfloor>)"
    by (simp add: set_param_def get_param_def slot u32_2f_def unat_f2u32)
  have out: "cnt \<le> k \<longrightarrow> set_param b i k v m = (0, m) \<and> get_param b m' i k = NaN"
    by (simp add: set_param_def get_param_def slot not_less [symmetric])
  from fl w16 w32 out show ?thesis by blast
qed

theorem set_param_get_param_roundtrip_witness:
  "(0::u16) < 2
   \<and> fst (set_param bank_u16_example 0 1 (Val (7/2)) memory_0) = 1
   \<and> get_param bank_u16_example (snd (set_param bank_u16_example 0 1 (Val (7/2)) memory_0)) 0 1 = Val 3
   \<and> set_param bank_u16_example 0 2 (Val (7/2)) memory_0 = (0, memory_0)
   \<and> get_param bank_u16_example memory_0 0 2 = NaN"
  using set_param_get_param_roundtrip
      [where cnt = 2 and b = bank_u16_example and i = 0 and ty = is_uint16_t and p = 0
         and g = g_parameters_0 and k = 1 and r = "7/2" and m = memory_0]
    set_param_get_param_roundtrip
      [where cnt = 2 and b = bank_u16_example and i = 0 and ty = is_uint16_t and p = 0
         and g = g_parameters_0 and k = 2 and v = "Val (7/2)" and m = memory_0 and m' = memory_0]
  by (simp add: bank_u16_example_def)

text \<open>
  The value read back is not always the value written: a \<^verbatim>\<open>uint16_t\<close> parameter set to
  3.5, a value that \<^verbatim>\<open>float\<close> represents exactly, reads back as 3.
\<close>

theorem set_param_get_param_truncates:
  "(1::u16) < 2
   \<and> fst (set_param bank_u16_example 0 1 (Val (7/2)) memory_0) = 1
   \<and> get_param bank_u16_example (snd (set_param bank_u16_example 0 1 (Val (7/2)) memory_0)) 0 1 = Val 3
   \<and> Val 3 \<noteq> Val (7/2)"
  by (simp add: bank_u16_example_def init_param_def g_parameters_0_def memory_0_def
      set_param_def get_param_def f2u16_def u16_2f_def trunc_def)

section \<open>Properties of the signal generator\<close>

lemmas siggen_defs = enable_siggen_def cfg_siggen_def init_siggen_def siggen_0_def
  reset_siggen_def scale_siggen_def set_siggen_freq_def set_siggen_freq_sine_def
  cfg_phase_and_length_def default_aux_param_def disable_siggen_def
  NUM_SIGGEN_AUX_PARAM_def NUM_SIGGEN_AUX_VAR_def

text \<open>\<^verbatim>\<open>fabs(roundf(x))\<close> is the integer nearest to \<open>\<bar>x\<bar>\<close>, hence not negative.\<close>

lemma fabs_roundf: "fabs (roundf x) = of_int \<lfloor>\<bar>x\<bar> + 1/2\<rfloor>"
proof (cases "x < 0")
  case True
  then have "0 \<le> \<lfloor>- x + 1/2\<rfloor>" by simp
  then have "\<bar>- real_of_int \<lfloor>- x + 1/2\<rfloor>\<bar> = real_of_int \<lfloor>- x + 1/2\<rfloor>" by simp
  with True show ?thesis by (simp add: fabs_def roundf_def abs_if)
next
  case False
  then have "0 \<le> \<lfloor>x + 1/2\<rfloor>" by simp
  then have "\<bar>real_of_int \<lfloor>x + 1/2\<rfloor>\<bar> = real_of_int \<lfloor>x + 1/2\<rfloor>" by simp
  with False show ?thesis by (simp add: fabs_def roundf_def abs_if)
qed

lemma fabs_roundf_nearest: "0 \<le> fabs (roundf x) \<and> \<bar>fabs (roundf x) - \<bar>x\<bar>\<bar> \<le> 1/2"
proof -
  have "0 \<le> real_of_int \<lfloor>\<bar>x\<bar> + 1/2\<rfloor>" by simp
  moreover have "real_of_int \<lfloor>\<bar>x\<bar> + 1/2\<rfloor> \<le> \<bar>x\<bar> + 1/2" by (rule of_int_floor_le)
  moreover have "\<bar>x\<bar> + 1/2 < real_of_int \<lfloor>\<bar>x\<bar> + 1/2\<rfloor> + 1" by (rule real_of_int_floor_add_one_gt)
  ultimately show ?thesis unfolding fabs_roundf by linarith
qed

lemma set_siggen_freq_continuous:
  assumes "sig_type s = Sine \<or> sig_type s = DampedSine" and "num_cycles s = 0"
  shows "set_siggen_freq s =
           s\<lparr>freq := of_int \<lfloor>\<bar>freq s\<bar> + 1/2\<rfloor>,
             aux_var := (aux_var s)(0 := 2 * PI * of_int \<lfloor>\<bar>freq s\<bar> + 1/2\<rfloor> / freq_sampling s)\<rparr>"
  using assms by (auto simp add: set_siggen_freq_def set_siggen_freq_sine_def fabs_roundf Let_def)


lemma dampedsine_example_fields:
  "enable dampedsine_example = 1"
  "num_cycles dampedsine_example = 0"
  "sig_type dampedsine_example = DampedSine"
  "n dampedsine_example = 0"
  "freq_sampling dampedsine_example = 2"
  "aux_var dampedsine_example 2 = 2"
  "p_run_siggen dampedsine_example = Run_dampedsine"
  by (simp_all add: dampedsine_example_def siggen_defs roundf_def fabs_def
      full_turn_aux_param_def Let_def)

lemma dampedsine_at_boundary_fields:
  "enable dampedsine_at_boundary = 1"
  "num_cycles dampedsine_at_boundary = 0"
  "sig_type dampedsine_at_boundary = DampedSine"
  "n dampedsine_at_boundary = 2"
  "freq dampedsine_at_boundary = 5/2"
  "freq_sampling dampedsine_at_boundary = 2"
  "aux_var dampedsine_at_boundary 2 = 2"
  "p_run_siggen dampedsine_at_boundary = Run_dampedsine"
  by (simp_all add: dampedsine_at_boundary_def run_siggen_def run_siggen_dampedsine_def
      dampedsine_example_fields)

lemma sine_full_turn_example_fields:
  "enable sine_full_turn_example = 1"
  "num_cycles sine_full_turn_example = 0"
  "sig_type sine_full_turn_example = Sine"
  "n sine_full_turn_example = 0"
  "freq_sampling sine_full_turn_example = 2"
  "aux_var sine_full_turn_example 2 = 2"
  "p_run_siggen sine_full_turn_example = Run_sine"
  by (simp_all add: sine_full_turn_example_def siggen_defs roundf_def fabs_def
      full_turn_aux_param_def Let_def)

lemma sine_full_turn_before_boundary_fields:
  "enable sine_full_turn_before_boundary = 1"
  "num_cycles sine_full_turn_before_boundary = 0"
  "sig_type sine_full_turn_before_boundary = Sine"
  "n sine_full_turn_before_boundary = 1"
  "freq sine_full_turn_before_boundary = 5/2"
  "freq_sampling sine_full_turn_before_boundary = 2"
  "aux_var sine_full_turn_before_boundary 2 = 2"
  "p_run_siggen sine_full_turn_before_boundary = Run_sine"
  by (simp_all add: sine_full_turn_before_boundary_def run_siggen_def run_siggen_sine_def
      sine_full_turn_example_fields Let_def)

lemma sine_example_fields:
  "enable sine_example = 1"
  "num_cycles sine_example = 0"
  "sig_type sine_example = Sine"
  "n sine_example = 0"
  "freq sine_example = 1"
  "freq_sampling sine_example = 2"
  "aux_var sine_example 2 = 0"
  "p_run_siggen sine_example = Run_sine"
  by (simp_all add: sine_example_def siggen_defs roundf_def fabs_def Let_def)

lemma sine_before_boundary_fields:
  "enable sine_before_boundary = 1"
  "num_cycles sine_before_boundary = 0"
  "sig_type sine_before_boundary = Sine"
  "n sine_before_boundary = 1"
  "freq sine_before_boundary = 5/2"
  "freq_sampling sine_before_boundary = 2"
  "aux_var sine_before_boundary 2 = 0"
  by (simp_all add: sine_before_boundary_def run_siggen_def run_siggen_sine_def
      sine_example_fields Let_def)

text \<open>
  C7. While the generator runs (\<open>enable \<noteq> 0\<close>), \<open>cfg_siggen\<close> returns the generator as
  it was, with every field unchanged; while it is disabled (\<open>enable = 0\<close>), the
  configuration is taken over.
\<close>

theorem cfg_siggen_running_is_noop:
  "(enable s \<noteq> 0 \<longrightarrow> cfg_siggen s ty cycles f amp offs aux = s)
   \<and> (enable s = 0 \<longrightarrow>
        sig_type (cfg_siggen s ty cycles f amp offs aux) = ty
      \<and> num_cycles (cfg_siggen s ty cycles f amp offs aux) = cycles
      \<and> amplitude (cfg_siggen s ty cycles f amp offs aux) = amp
      \<and> offset (cfg_siggen s ty cycles f amp offs aux) = offs
      \<and> n (cfg_siggen s ty cycles f amp offs aux) = 0)"
  by (cases ty) (simp_all add: cfg_siggen_def scale_siggen_def set_siggen_freq_def
      set_siggen_freq_sine_def cfg_phase_and_length_def Let_def)

theorem cfg_siggen_running_is_noop_witness:
  "enable sine_example \<noteq> 0
   \<and> cfg_siggen sine_example Trapezoidal 3 0 10 0 trapezoid_aux_param = sine_example
   \<and> enable siggen_0 = 0
   \<and> sig_type (cfg_siggen siggen_0 Trapezoidal 3 0 10 0 trapezoid_aux_param) = Trapezoidal
   \<and> num_cycles (cfg_siggen siggen_0 Trapezoidal 3 0 10 0 trapezoid_aux_param) = 3
   \<and> amplitude (cfg_siggen siggen_0 Trapezoidal 3 0 10 0 trapezoid_aux_param) = 10"
  using cfg_siggen_running_is_noop [of sine_example Trapezoidal 3 0 10 0 trapezoid_aux_param]
    cfg_siggen_running_is_noop [of siggen_0 Trapezoidal 3 0 10 0 trapezoid_aux_param]
  by (simp add: sine_example_fields) (simp add: siggen_0_def)

text \<open>
  C8 (as the code has it). In continuous mode (\<open>num_cycles = 0\<close>) of the Sine and
  DampedSine variants, \<open>cfg_siggen\<close> leaves the frequency rounded to the nearest
  non-negative integer, and \<open>set_siggen_freq\<close> rounds it so and computes the phase
  increment \<open>aux_var[0]\<close> from the rounded frequency. For the Sine variant only, and
  only while the total length \<open>aux_var[2]\<close> is not positive, \<open>run_siggen_sine\<close> rounds
  the frequency again, recomputes the phase increment and resets \<open>n\<close> to 0 each time
  \<open>n\<close> reaches the sampling frequency; before that it only advances \<open>n\<close>.
\<close>

theorem continuous_mode_frequency_rounding:
  "(enable s = 0 \<and> (ty = Sine \<or> ty = DampedSine) \<longrightarrow>
      freq (cfg_siggen s ty 0 f amp offs aux) = of_int \<lfloor>\<bar>f\<bar> + 1/2\<rfloor>)
   \<and> ((sig_type s = Sine \<or> sig_type s = DampedSine) \<and> num_cycles s = 0 \<longrightarrow>
        freq (set_siggen_freq s) = of_int \<lfloor>\<bar>freq s\<bar> + 1/2\<rfloor>
      \<and> aux_var (set_siggen_freq s) 0 = 2 * PI * of_int \<lfloor>\<bar>freq s\<bar> + 1/2\<rfloor> / freq_sampling s)
   \<and> (enable s \<noteq> 0 \<and> sig_type s = Sine \<and> num_cycles s = 0 \<and> aux_var s 2 \<le> 0
        \<and> freq_sampling s \<le> n s + 1 \<longrightarrow>
        freq (fst (run_siggen_sine (s, x))) = of_int \<lfloor>\<bar>freq s\<bar> + 1/2\<rfloor>
      \<and> aux_var (fst (run_siggen_sine (s, x))) 0
          = 2 * PI * of_int \<lfloor>\<bar>freq s\<bar> + 1/2\<rfloor> / freq_sampling s
      \<and> n (fst (run_siggen_sine (s, x))) = 0
      \<and> enable (fst (run_siggen_sine (s, x))) = enable s)
   \<and> (enable s \<noteq> 0 \<and> aux_var s 2 \<le> 0 \<and> n s + 1 < freq_sampling s \<longrightarrow>
        freq (fst (run_siggen_sine (s, x))) = freq s
      \<and> n (fst (run_siggen_sine (s, x))) = n s + 1)"
proof -
  have cfg: "enable s = 0 \<and> (ty = Sine \<or> ty = DampedSine) \<longrightarrow>
      freq (cfg_siggen s ty 0 f amp offs aux) = of_int \<lfloor>\<bar>f\<bar> + 1/2\<rfloor>"
    by (auto simp add: cfg_siggen_def scale_siggen_def set_siggen_freq_def
        set_siggen_freq_sine_def cfg_phase_and_length_def fabs_roundf Let_def)
  have setf: "(sig_type s = Sine \<or> sig_type s = DampedSine) \<and> num_cycles s = 0 \<longrightarrow>
        freq (set_siggen_freq s) = of_int \<lfloor>\<bar>freq s\<bar> + 1/2\<rfloor>
      \<and> aux_var (set_siggen_freq s) 0 = 2 * PI * of_int \<lfloor>\<bar>freq s\<bar> + 1/2\<rfloor> / freq_sampling s"
    by (simp add: set_siggen_freq_continuous)
  have run: "enable s \<noteq> 0 \<and> sig_type s = Sine \<and> num_cycles s = 0 \<and> aux_var s 2 \<le> 0
        \<and> freq_sampling s \<le> n s + 1 \<longrightarrow>
        freq (fst (run_siggen_sine (s, x))) = of_int \<lfloor>\<bar>freq s\<bar> + 1/2\<rfloor>
      \<and> aux_var (fst (run_siggen_sine (s, x))) 0
          = 2 * PI * of_int \<lfloor>\<bar>freq s\<bar> + 1/2\<rfloor> / freq_sampling s
      \<and> n (fst (run_siggen_sine (s, x))) = 0
      \<and> enable (fst (run_siggen_sine (s, x))) = enable s"
    by (simp add: run_siggen_sine_def set_siggen_freq_continuous Let_def)
  have before: "enable s \<noteq> 0 \<and> aux_var s 2 \<le> 0 \<and> n s + 1 < freq_sampling s \<longrightarrow>
        freq (fst (run_siggen_sine (s, x))) = freq s
      \<and> n (fst (run_siggen_sine (s, x))) = n s + 1"
    by (simp add: run_siggen_sine_def Let_def)
  from cfg setf run before show ?thesis by blast
qed

theorem continuous_mode_frequency_rounding_witness:
  "enable siggen_0 = 0
   \<and> freq (cfg_siggen siggen_0 Sine 0 (5/2) 1 0 default_aux_param) = 3
   \<and> enable sine_before_boundary \<noteq> 0 \<and> sig_type sine_before_boundary = Sine
   \<and> num_cycles sine_before_boundary = 0 \<and> aux_var sine_before_boundary 2 \<le> 0
   \<and> freq_sampling sine_before_boundary \<le> n sine_before_boundary + 1
   \<and> freq sine_before_boundary = 5/2
   \<and> freq (set_siggen_freq sine_before_boundary) = 3
   \<and> aux_var (set_siggen_freq sine_before_boundary) 0 = 2 * PI * 3 / 2
   \<and> freq (fst (run_siggen_sine (sine_before_boundary, 0))) = 3
   \<and> aux_var (fst (run_siggen_sine (sine_before_boundary, 0))) 0 = 2 * PI * 3 / 2
   \<and> n (fst (run_siggen_sine (sine_before_boundary, 0))) = 0
   \<and> enable sine_example \<noteq> 0 \<and> aux_var sine_example 2 \<le> 0
   \<and> n sine_example + 1 < freq_sampling sine_example
   \<and> n (fst (run_siggen_sine (sine_example, 0))) = 1"
  using continuous_mode_frequency_rounding
      [of siggen_0 Sine "5/2" 1 0 default_aux_param 0]
    continuous_mode_frequency_rounding
      [of sine_before_boundary Sine "5/2" 1 0 default_aux_param 0]
    continuous_mode_frequency_rounding
      [of sine_example Sine "5/2" 1 0 default_aux_param 0]
  by (simp add: sine_before_boundary_fields sine_example_fields) (simp add: siggen_0_def)

text \<open>
  The damped sine is not rounded again at the 1-second boundary. The example runs in
  continuous mode and has reached \<open>n = freq_sampling\<close> with a frequency field of 2.5:
  the next call of its run function leaves the frequency at 2.5 and \<open>n\<close> at 2, and
  disables the generator. Nor is the sine, when its total length \<open>aux_var[2]\<close> is
  positive: the example in continuous mode with a phase range of a full turn reaches
  \<open>n = freq_sampling\<close> in its second call, which leaves the frequency at 2.5 and \<open>n\<close>
  at 2, and disables the generator.
\<close>

theorem dampedsine_not_rounded_at_boundary:
  "enable dampedsine_at_boundary \<noteq> 0
   \<and> sig_type dampedsine_at_boundary = DampedSine
   \<and> num_cycles dampedsine_at_boundary = 0
   \<and> n dampedsine_at_boundary = freq_sampling dampedsine_at_boundary
   \<and> freq dampedsine_at_boundary = 5/2
   \<and> freq (fst (run_siggen (dampedsine_at_boundary, 0))) = 5/2
   \<and> freq (fst (run_siggen (dampedsine_at_boundary, 0))) \<noteq> 3
   \<and> n (fst (run_siggen (dampedsine_at_boundary, 0))) = 2
   \<and> n (fst (run_siggen (dampedsine_at_boundary, 0))) \<noteq> 0
   \<and> enable (fst (run_siggen (dampedsine_at_boundary, 0))) = 0
   \<and> enable sine_full_turn_before_boundary \<noteq> 0
   \<and> sig_type sine_full_turn_before_boundary = Sine
   \<and> num_cycles sine_full_turn_before_boundary = 0
   \<and> n sine_full_turn_before_boundary + 1 = freq_sampling sine_full_turn_before_boundary
   \<and> freq sine_full_turn_before_boundary = 5/2
   \<and> freq (fst (run_siggen (sine_full_turn_before_boundary, 0))) = 5/2
   \<and> freq (fst (run_siggen (sine_full_turn_before_boundary, 0))) \<noteq> 3
   \<and> n (fst (run_siggen (sine_full_turn_before_boundary, 0))) = 2
   \<and> n (fst (run_siggen (sine_full_turn_before_boundary, 0))) \<noteq> 0
   \<and> enable (fst (run_siggen (sine_full_turn_before_boundary, 0))) = 0"
  by (simp add: run_siggen_def run_siggen_dampedsine_def run_siggen_sine_def
      dampedsine_at_boundary_fields sine_full_turn_before_boundary_fields
      disable_siggen_def Let_def)















section \<open>Properties of the event manager\<close>

lemma init_fold:
  "event (hard_interlocks (fold (init_event_manager_iter f nh ns phd phr psd psr) [0..<k] em)) i
     = (if i < k then init_event f nh phd phr i else event (hard_interlocks em) i)
   \<and> event (soft_interlocks (fold (init_event_manager_iter f nh ns phd phr psd psr) [0..<k] em)) i
     = (if i < k then init_event f ns psd psr i else event (soft_interlocks em) i)"
  by (induction k) (auto simp add: init_event_manager_iter_def)

lemma init_fold_frame:
  "num_events (hard_interlocks (fold (init_event_manager_iter f nh ns phd phr psd psr) xs em))
     = num_events (hard_interlocks em)
   \<and> num_events (soft_interlocks (fold (init_event_manager_iter f nh ns phd phr psd psr) xs em))
     = num_events (soft_interlocks em)
   \<and> timebase_flag (fold (init_event_manager_iter f nh ns phd phr psd psr) xs em)
     = timebase_flag em
   \<and> freq_timebase (fold (init_event_manager_iter f nh ns phd phr psd psr) xs em)
     = freq_timebase em"
  by (induction xs arbitrary: em) (simp_all add: init_event_manager_iter_def)

lemma init_event_manager_frame:
  "num_events (hard_interlocks (init_event_manager m f nh ns phd phr psd psr g m)) = nh"
  "num_events (soft_interlocks (init_event_manager m f nh ns phd phr psd psr g m)) = ns"
  "timebase_flag (init_event_manager m f nh ns phd phr psd psr g m) = 0"
  "freq_timebase (init_event_manager m f nh ns phd phr psd psr g m) = f"
  by (simp_all add: init_event_manager_def init_fold_frame Let_def)

lemma init_event_manager_event:
  assumes "i < NUM_MAX_EVENT_COUNTER"
  shows "event (hard_interlocks (init_event_manager m f nh ns phd phr psd psr g m)) i
           = init_event f nh phd phr i"
    and "event (soft_interlocks (init_event_manager m f nh ns phd phr psd psr g m)) i
           = init_event f ns psd psr i"
  using assms by (simp_all add: init_event_manager_def init_fold Let_def)









lemma world_0_events:
  "hard_event world_0 0 0 = \<lparr>flag = 0, counter = 0, debounce_count = 2, reset_count = 5\<rparr>"
  "hard_event world_0 0 1 = \<lparr>flag = 0, counter = 0, debounce_count = 0, reset_count = 10000\<rparr>"
  "soft_event world_0 0 0 = \<lparr>flag = 0, counter = 0, debounce_count = 2, reset_count = 5\<rparr>"
  "num_events (hard_interlocks (g_event_manager world_0 0)) = 2"
  "num_events (soft_interlocks (g_event_manager world_0 0)) = 1"
  "timebase_flag (g_event_manager world_0 0) = 0"
  by (simp_all add: world_0_def hard_event_def soft_event_def init_event_manager_event
      init_event_manager_frame NUM_MAX_EVENT_COUNTER_def init_event_def debounce_times_example_def reset_times_example_def
      SATURATE_def MAX_DEBOUNCE_TIME_US_def MAX_RESET_TIME_US_def max_reset_counts_def
      to_u32_def f2u32_def trunc_def Let_def)




section \<open>Properties of the interlocks\<close>

lemma lut_bit_position_nonzero: "k < 32 \<Longrightarrow> lut_bit_position ! k \<noteq> 0"
  by (simp add: lut_bit_position_def nth_Cons split: nat.splits)

lemma or_and_bit: "(m OR b) AND b = (b::u32)"
  by (simp add: bit_eq_iff bit_and_iff bit_or_iff)

lemma upd_hard_event_simps [simp]:
  "ps_module (upd_hard_event i k f w) = ps_module w"
  "turn_off_calls (upd_hard_event i k f w) = turn_off_calls w"
  "num_events (hard_interlocks (g_event_manager (upd_hard_event i k f w) j))
     = num_events (hard_interlocks (g_event_manager w j))"
  "hard_event (upd_hard_event i k f w) j l
     = (if j = i \<and> l = k then f (hard_event w i k) else hard_event w j l)"
  "soft_interlocks (g_event_manager (upd_hard_event i k f w) j) = soft_interlocks (g_event_manager w j)"
  "timebase_flag (g_event_manager (upd_hard_event i k f w) j) = timebase_flag (g_event_manager w j)"
  by (simp_all add: upd_hard_event_def hard_event_def)

lemma upd_soft_event_simps [simp]:
  "ps_module (upd_soft_event i k f w) = ps_module w"
  "turn_off_calls (upd_soft_event i k f w) = turn_off_calls w"
  "num_events (soft_interlocks (g_event_manager (upd_soft_event i k f w) j))
     = num_events (soft_interlocks (g_event_manager w j))"
  "soft_event (upd_soft_event i k f w) j l
     = (if j = i \<and> l = k then f (soft_event w i k) else soft_event w j l)"
  "hard_interlocks (g_event_manager (upd_soft_event i k f w) j) = hard_interlocks (g_event_manager w j)"
  "timebase_flag (g_event_manager (upd_soft_event i k f w) j) = timebase_flag (g_event_manager w j)"
  by (simp_all add: upd_soft_event_def soft_event_def)

lemma upd_event_cross [simp]:
  "soft_event (upd_hard_event i k f w) = soft_event w"
  "hard_event (upd_soft_event i k f w) = hard_event w"
  "num_events (soft_interlocks (g_event_manager (upd_hard_event i k f w) j))
     = num_events (soft_interlocks (g_event_manager w j))"
  "num_events (hard_interlocks (g_event_manager (upd_soft_event i k f w) j))
     = num_events (hard_interlocks (g_event_manager w j))"
  by (simp_all add: upd_hard_event_def upd_soft_event_def hard_event_def soft_event_def fun_eq_iff)

lemma upd_ps_module_simps [simp]:
  "g_event_manager (upd_ps_module i f w) = g_event_manager w"
  "turn_off_calls (upd_ps_module i f w) = turn_off_calls w"
  "ps_module (upd_ps_module i f w) j = (if j = i then f (ps_module w i) else ps_module w j)"
  "hard_event (upd_ps_module i f w) = hard_event w"
  "soft_event (upd_ps_module i f w) = soft_event w"
  by (simp_all add: upd_ps_module_def hard_event_def soft_event_def fun_eq_iff)

lemma call_turn_off_calls [simp]:
  "turn_off_calls (call_turn_off toff i w) = Suc (turn_off_calls w)"
  by (simp add: call_turn_off_def)

lemma set_hard_interlock_invalid:
  "\<not> unat itlk < unat (num_events (hard_interlocks (g_event_manager w i)))
   \<Longrightarrow> set_hard_interlock u toff i itlk w = w"
  by (simp add: set_hard_interlock_def)

lemma set_hard_interlock_below:
  "unat itlk < unat (num_events (hard_interlocks (g_event_manager w i)))
   \<Longrightarrow> counter (hard_event w i (unat itlk)) < debounce_count (hard_event w i (unat itlk))
   \<Longrightarrow> set_hard_interlock u toff i itlk w = upd_hard_event i (unat itlk) (\<lambda>e. e\<lparr>flag := 1\<rparr>) w"
  by (simp add: set_hard_interlock_def Let_def not_le [symmetric])

lemma set_hard_interlock_latched:
  "unat itlk < unat (num_events (hard_interlocks (g_event_manager w i)))
   \<Longrightarrow> debounce_count (hard_event w i (unat itlk)) \<le> counter (hard_event w i (unat itlk))
   \<Longrightarrow> hard_committed w i itlk
   \<Longrightarrow> set_hard_interlock u toff i itlk w
       = upd_hard_event i (unat itlk) (\<lambda>e. e\<lparr>flag := 0, counter := 0\<rparr>)
           (upd_hard_event i (unat itlk) (\<lambda>e. e\<lparr>flag := 1\<rparr>) w)"
  by (simp add: set_hard_interlock_def Let_def hard_committed_def)

lemma set_hard_interlock_commit:
  "unat itlk < unat (num_events (hard_interlocks (g_event_manager w i)))
   \<Longrightarrow> debounce_count (hard_event w i (unat itlk)) \<le> counter (hard_event w i (unat itlk))
   \<Longrightarrow> \<not> hard_committed w i itlk
   \<Longrightarrow> set_hard_interlock True toff i itlk w
       = upd_hard_event i (unat itlk) (\<lambda>e. e\<lparr>flag := 0, counter := 0\<rparr>)
           (upd_ps_module i (\<lambda>m. m\<lparr>ps_hard_interlock :=
                                   ps_hard_interlock m OR lut_bit_position ! unat itlk\<rparr>)
              (upd_ps_module i (\<lambda>m. m\<lparr>ps_state := Interlock\<rparr>)
                 (call_turn_off toff i (upd_hard_event i (unat itlk) (\<lambda>e. e\<lparr>flag := 1\<rparr>) w))))"
  by (simp add: set_hard_interlock_def Let_def hard_committed_def)

lemma set_hard_interlock_commit_no_itlk:
  "unat itlk < unat (num_events (hard_interlocks (g_event_manager w i)))
   \<Longrightarrow> debounce_count (hard_event w i (unat itlk)) \<le> counter (hard_event w i (unat itlk))
   \<Longrightarrow> \<not> hard_committed w i itlk
   \<Longrightarrow> set_hard_interlock False toff i itlk w
       = upd_hard_event i (unat itlk) (\<lambda>e. e\<lparr>flag := 0, counter := 0\<rparr>)
           (upd_ps_module i (\<lambda>m. m\<lparr>ps_hard_interlock :=
                                   ps_hard_interlock m OR lut_bit_position ! unat itlk\<rparr>)
                 (upd_hard_event i (unat itlk) (\<lambda>e. e\<lparr>flag := 1\<rparr>) w))"
  by (simp add: set_hard_interlock_def Let_def hard_committed_def)

lemma hard_quiet_after_raise:
  assumes "unat itlk < 32"
  shows "hard_quiet (set_hard_interlock u toff i itlk w) i itlk"
proof -
  let ?v = "unat itlk < unat (num_events (hard_interlocks (g_event_manager w i)))"
  let ?b = "debounce_count (hard_event w i (unat itlk)) \<le> counter (hard_event w i (unat itlk))"
  note nz = lut_bit_position_nonzero [OF assms]
  consider (inv) "\<not> ?v" | (below) "?v" "\<not> ?b" | (latched) "?v" "?b" "hard_committed w i itlk"
    | (commit) "?v" "?b" "\<not> hard_committed w i itlk"
    by blast
  then show ?thesis
  proof cases
    case inv
    then show ?thesis by (simp add: set_hard_interlock_invalid hard_quiet_def)
  next
    case below
    then show ?thesis
      by (simp add: set_hard_interlock_below hard_quiet_def not_le)
  next
    case latched
    then show ?thesis
      by (simp add: set_hard_interlock_latched hard_quiet_def hard_committed_def)
  next
    case commit
    then show ?thesis using nz
      by (cases u)
        (simp_all add: set_hard_interlock_commit set_hard_interlock_commit_no_itlk
          hard_quiet_def hard_committed_def or_and_bit)
  qed
qed

lemma hard_quiet_raise:
  assumes "hard_quiet w i itlk"
  shows "ps_module (set_hard_interlock u toff i itlk w) = ps_module w
       \<and> turn_off_calls (set_hard_interlock u toff i itlk w) = turn_off_calls w
       \<and> hard_quiet (set_hard_interlock u toff i itlk w) i itlk"
proof -
  let ?v = "unat itlk < unat (num_events (hard_interlocks (g_event_manager w i)))"
  let ?b = "debounce_count (hard_event w i (unat itlk)) \<le> counter (hard_event w i (unat itlk))"
  consider (inv) "\<not> ?v" | (below) "?v" "\<not> ?b" | (latched) "?v" "?b" "hard_committed w i itlk"
    using assms unfolding hard_quiet_def not_le [symmetric] by blast
  then show ?thesis
  proof cases
    case inv
    then show ?thesis using assms by (simp add: set_hard_interlock_invalid)
  next
    case below
    then show ?thesis
      by (simp add: set_hard_interlock_below hard_quiet_def not_le hard_committed_def)
  next
    case latched
    then show ?thesis
      by (simp add: set_hard_interlock_latched hard_quiet_def hard_committed_def)
  qed
qed

lemma hard_quiet_raises:
  "hard_quiet w i itlk \<Longrightarrow>
     ps_module ((set_hard_interlock u toff i itlk ^^ m) w) = ps_module w
   \<and> turn_off_calls ((set_hard_interlock u toff i itlk ^^ m) w) = turn_off_calls w
   \<and> hard_quiet ((set_hard_interlock u toff i itlk ^^ m) w) i itlk"
proof (induction m)
  case 0
  then show ?case by simp
next
  case (Suc m)
  then show ?case using hard_quiet_raise [of "(set_hard_interlock u toff i itlk ^^ m) w" i itlk u toff]
    by simp
qed

lemma set_hard_interlock_calls_le:
  "turn_off_calls (set_hard_interlock u toff i itlk w) \<le> Suc (turn_off_calls w)"
  by (simp add: set_hard_interlock_def Let_def)


lemma set_hard_interlock_raises:
  assumes "unat itlk < 32"
  shows "ps_module ((set_hard_interlock u toff i itlk ^^ Suc m) w)
           = ps_module (set_hard_interlock u toff i itlk w)
       \<and> turn_off_calls ((set_hard_interlock u toff i itlk ^^ Suc m) w)
           = turn_off_calls (set_hard_interlock u toff i itlk w)
       \<and> turn_off_calls ((set_hard_interlock u toff i itlk ^^ m) w) \<le> Suc (turn_off_calls w)"
proof -
  note q = hard_quiet_raises [OF hard_quiet_after_raise [OF assms, of u toff i w],
      where u = u and toff = toff]
  have sw: "(set_hard_interlock u toff i itlk ^^ Suc m) w
      = (set_hard_interlock u toff i itlk ^^ m) (set_hard_interlock u toff i itlk w)" for m
    by (simp only: funpow_Suc_right o_apply)
  have a: "ps_module ((set_hard_interlock u toff i itlk ^^ Suc m) w)
           = ps_module (set_hard_interlock u toff i itlk w)"
    and b: "turn_off_calls ((set_hard_interlock u toff i itlk ^^ Suc m) w)
           = turn_off_calls (set_hard_interlock u toff i itlk w)" for m
    using q [of m] by (simp_all only: sw)
  have c: "turn_off_calls ((set_hard_interlock u toff i itlk ^^ m) w) \<le> Suc (turn_off_calls w)"
  proof (cases m)
    case 0
    then show ?thesis by simp
  next
    case (Suc m')
    then show ?thesis using b [of m'] set_hard_interlock_calls_le [of u toff i itlk w] by simp
  qed
  from a b c show ?thesis by blast
qed

lemma set_hard_interlock_effect:
  assumes k: "unat itlk < 32"
    and v: "unat itlk < unat (num_events (hard_interlocks (g_event_manager w i)))"
  shows "(counter (hard_event w i (unat itlk)) < debounce_count (hard_event w i (unat itlk)) \<longrightarrow>
            set_hard_interlock True toff i itlk w
              = upd_hard_event i (unat itlk) (\<lambda>e. e\<lparr>flag := 1\<rparr>) w)
       \<and> (debounce_count (hard_event w i (unat itlk)) \<le> counter (hard_event w i (unat itlk)) \<longrightarrow>
            flag (hard_event (set_hard_interlock True toff i itlk w) i (unat itlk)) = 0
          \<and> counter (hard_event (set_hard_interlock True toff i itlk w) i (unat itlk)) = 0
          \<and> hard_committed (set_hard_interlock True toff i itlk w) i itlk
          \<and> (hard_committed w i itlk \<longrightarrow>
                ps_module (set_hard_interlock True toff i itlk w) = ps_module w
              \<and> turn_off_calls (set_hard_interlock True toff i itlk w) = turn_off_calls w)
          \<and> (\<not> hard_committed w i itlk \<longrightarrow>
                turn_off_calls (set_hard_interlock True toff i itlk w) = Suc (turn_off_calls w)
              \<and> ps_state (ps_module (set_hard_interlock True toff i itlk w) i) = Interlock
              \<and> ps_hard_interlock (ps_module (set_hard_interlock True toff i itlk w) i)
                  = ps_hard_interlock
                      (ps_module (toff i (upd_hard_event i (unat itlk) (\<lambda>e. e\<lparr>flag := 1\<rparr>) w)) i)
                    OR lut_bit_position ! unat itlk))"
proof -
  note nz = lut_bit_position_nonzero [OF k]
  have below: "counter (hard_event w i (unat itlk)) < debounce_count (hard_event w i (unat itlk)) \<longrightarrow>
            set_hard_interlock True toff i itlk w
              = upd_hard_event i (unat itlk) (\<lambda>e. e\<lparr>flag := 1\<rparr>) w"
    using v by (simp add: set_hard_interlock_below)
  have reached: "flag (hard_event (set_hard_interlock True toff i itlk w) i (unat itlk)) = 0
          \<and> counter (hard_event (set_hard_interlock True toff i itlk w) i (unat itlk)) = 0
          \<and> hard_committed (set_hard_interlock True toff i itlk w) i itlk
          \<and> (hard_committed w i itlk \<longrightarrow>
                ps_module (set_hard_interlock True toff i itlk w) = ps_module w
              \<and> turn_off_calls (set_hard_interlock True toff i itlk w) = turn_off_calls w)
          \<and> (\<not> hard_committed w i itlk \<longrightarrow>
                turn_off_calls (set_hard_interlock True toff i itlk w) = Suc (turn_off_calls w)
              \<and> ps_state (ps_module (set_hard_interlock True toff i itlk w) i) = Interlock
              \<and> ps_hard_interlock (ps_module (set_hard_interlock True toff i itlk w) i)
                  = ps_hard_interlock
                      (ps_module (toff i (upd_hard_event i (unat itlk) (\<lambda>e. e\<lparr>flag := 1\<rparr>) w)) i)
                    OR lut_bit_position ! unat itlk)"
    if b: "debounce_count (hard_event w i (unat itlk)) \<le> counter (hard_event w i (unat itlk))"
  proof (cases "hard_committed w i itlk")
    case True
    then show ?thesis
      by (simp add: set_hard_interlock_latched [OF v b True]) (simp add: hard_committed_def)
  next
    case False
    then show ?thesis using nz
      by (simp add: set_hard_interlock_commit [OF v b False])
        (simp add: hard_committed_def or_and_bit call_turn_off_def)
  qed
  from below reached show ?thesis by blast
qed

lemma set_soft_interlock_invalid:
  "\<not> unat itlk < unat (num_events (soft_interlocks (g_event_manager w i)))
   \<Longrightarrow> set_soft_interlock u toff i itlk w = w"
  by (simp add: set_soft_interlock_def)

lemma set_soft_interlock_below:
  "unat itlk < unat (num_events (soft_interlocks (g_event_manager w i)))
   \<Longrightarrow> counter (soft_event w i (unat itlk)) < debounce_count (soft_event w i (unat itlk))
   \<Longrightarrow> set_soft_interlock u toff i itlk w = upd_soft_event i (unat itlk) (\<lambda>e. e\<lparr>flag := 1\<rparr>) w"
  by (simp add: set_soft_interlock_def Let_def not_le [symmetric])

lemma set_soft_interlock_latched:
  "unat itlk < unat (num_events (soft_interlocks (g_event_manager w i)))
   \<Longrightarrow> debounce_count (soft_event w i (unat itlk)) \<le> counter (soft_event w i (unat itlk))
   \<Longrightarrow> soft_committed w i itlk
   \<Longrightarrow> set_soft_interlock u toff i itlk w
       = upd_soft_event i (unat itlk) (\<lambda>e. e\<lparr>flag := 0, counter := 0\<rparr>)
           (upd_soft_event i (unat itlk) (\<lambda>e. e\<lparr>flag := 1\<rparr>) w)"
  by (simp add: set_soft_interlock_def Let_def soft_committed_def)

lemma set_soft_interlock_commit:
  "unat itlk < unat (num_events (soft_interlocks (g_event_manager w i)))
   \<Longrightarrow> debounce_count (soft_event w i (unat itlk)) \<le> counter (soft_event w i (unat itlk))
   \<Longrightarrow> \<not> soft_committed w i itlk
   \<Longrightarrow> set_soft_interlock True toff i itlk w
       = upd_soft_event i (unat itlk) (\<lambda>e. e\<lparr>flag := 0, counter := 0\<rparr>)
           (upd_ps_module i (\<lambda>m. m\<lparr>ps_soft_interlock :=
                                   ps_soft_interlock m OR lut_bit_position ! unat itlk\<rparr>)
              (upd_ps_module i (\<lambda>m. m\<lparr>ps_state := Interlock\<rparr>)
                 (call_turn_off toff i (upd_soft_event i (unat itlk) (\<lambda>e. e\<lparr>flag := 1\<rparr>) w))))"
  by (simp add: set_soft_interlock_def Let_def soft_committed_def)

lemma set_soft_interlock_commit_no_itlk:
  "unat itlk < unat (num_events (soft_interlocks (g_event_manager w i)))
   \<Longrightarrow> debounce_count (soft_event w i (unat itlk)) \<le> counter (soft_event w i (unat itlk))
   \<Longrightarrow> \<not> soft_committed w i itlk
   \<Longrightarrow> set_soft_interlock False toff i itlk w
       = upd_soft_event i (unat itlk) (\<lambda>e. e\<lparr>flag := 0, counter := 0\<rparr>)
           (upd_ps_module i (\<lambda>m. m\<lparr>ps_soft_interlock :=
                                   ps_soft_interlock m OR lut_bit_position ! unat itlk\<rparr>)
                 (upd_soft_event i (unat itlk) (\<lambda>e. e\<lparr>flag := 1\<rparr>) w))"
  by (simp add: set_soft_interlock_def Let_def soft_committed_def)

lemma soft_quiet_after_raise:
  assumes "unat itlk < 32"
  shows "soft_quiet (set_soft_interlock u toff i itlk w) i itlk"
proof -
  let ?v = "unat itlk < unat (num_events (soft_interlocks (g_event_manager w i)))"
  let ?b = "debounce_count (soft_event w i (unat itlk)) \<le> counter (soft_event w i (unat itlk))"
  note nz = lut_bit_position_nonzero [OF assms]
  consider (inv) "\<not> ?v" | (below) "?v" "\<not> ?b" | (latched) "?v" "?b" "soft_committed w i itlk"
    | (commit) "?v" "?b" "\<not> soft_committed w i itlk"
    by blast
  then show ?thesis
  proof cases
    case inv
    then show ?thesis by (simp add: set_soft_interlock_invalid soft_quiet_def)
  next
    case below
    then show ?thesis
      by (simp add: set_soft_interlock_below soft_quiet_def not_le)
  next
    case latched
    then show ?thesis
      by (simp add: set_soft_interlock_latched soft_quiet_def soft_committed_def)
  next
    case commit
    then show ?thesis using nz
      by (cases u)
        (simp_all add: set_soft_interlock_commit set_soft_interlock_commit_no_itlk
          soft_quiet_def soft_committed_def or_and_bit)
  qed
qed

lemma soft_quiet_raise:
  assumes "soft_quiet w i itlk"
  shows "ps_module (set_soft_interlock u toff i itlk w) = ps_module w
       \<and> turn_off_calls (set_soft_interlock u toff i itlk w) = turn_off_calls w
       \<and> soft_quiet (set_soft_interlock u toff i itlk w) i itlk"
proof -
  let ?v = "unat itlk < unat (num_events (soft_interlocks (g_event_manager w i)))"
  let ?b = "debounce_count (soft_event w i (unat itlk)) \<le> counter (soft_event w i (unat itlk))"
  consider (inv) "\<not> ?v" | (below) "?v" "\<not> ?b" | (latched) "?v" "?b" "soft_committed w i itlk"
    using assms unfolding soft_quiet_def not_le [symmetric] by blast
  then show ?thesis
  proof cases
    case inv
    then show ?thesis using assms by (simp add: set_soft_interlock_invalid)
  next
    case below
    then show ?thesis
      by (simp add: set_soft_interlock_below soft_quiet_def not_le soft_committed_def)
  next
    case latched
    then show ?thesis
      by (simp add: set_soft_interlock_latched soft_quiet_def soft_committed_def)
  qed
qed

lemma soft_quiet_raises:
  "soft_quiet w i itlk \<Longrightarrow>
     ps_module ((set_soft_interlock u toff i itlk ^^ m) w) = ps_module w
   \<and> turn_off_calls ((set_soft_interlock u toff i itlk ^^ m) w) = turn_off_calls w
   \<and> soft_quiet ((set_soft_interlock u toff i itlk ^^ m) w) i itlk"
proof (induction m)
  case 0
  then show ?case by simp
next
  case (Suc m)
  then show ?case using soft_quiet_raise [of "(set_soft_interlock u toff i itlk ^^ m) w" i itlk u toff]
    by simp
qed

lemma set_soft_interlock_calls_le:
  "turn_off_calls (set_soft_interlock u toff i itlk w) \<le> Suc (turn_off_calls w)"
  by (simp add: set_soft_interlock_def Let_def)


lemma set_soft_interlock_raises:
  assumes "unat itlk < 32"
  shows "ps_module ((set_soft_interlock u toff i itlk ^^ Suc m) w)
           = ps_module (set_soft_interlock u toff i itlk w)
       \<and> turn_off_calls ((set_soft_interlock u toff i itlk ^^ Suc m) w)
           = turn_off_calls (set_soft_interlock u toff i itlk w)
       \<and> turn_off_calls ((set_soft_interlock u toff i itlk ^^ m) w) \<le> Suc (turn_off_calls w)"
proof -
  note q = soft_quiet_raises [OF soft_quiet_after_raise [OF assms, of u toff i w],
      where u = u and toff = toff]
  have sw: "(set_soft_interlock u toff i itlk ^^ Suc m) w
      = (set_soft_interlock u toff i itlk ^^ m) (set_soft_interlock u toff i itlk w)" for m
    by (simp only: funpow_Suc_right o_apply)
  have a: "ps_module ((set_soft_interlock u toff i itlk ^^ Suc m) w)
           = ps_module (set_soft_interlock u toff i itlk w)"
    and b: "turn_off_calls ((set_soft_interlock u toff i itlk ^^ Suc m) w)
           = turn_off_calls (set_soft_interlock u toff i itlk w)" for m
    using q [of m] by (simp_all only: sw)
  have c: "turn_off_calls ((set_soft_interlock u toff i itlk ^^ m) w) \<le> Suc (turn_off_calls w)"
  proof (cases m)
    case 0
    then show ?thesis by simp
  next
    case (Suc m')
    then show ?thesis using b [of m'] set_soft_interlock_calls_le [of u toff i itlk w] by simp
  qed
  from a b c show ?thesis by blast
qed

lemma set_soft_interlock_effect:
  assumes k: "unat itlk < 32"
    and v: "unat itlk < unat (num_events (soft_interlocks (g_event_manager w i)))"
  shows "(counter (soft_event w i (unat itlk)) < debounce_count (soft_event w i (unat itlk)) \<longrightarrow>
            set_soft_interlock True toff i itlk w
              = upd_soft_event i (unat itlk) (\<lambda>e. e\<lparr>flag := 1\<rparr>) w)
       \<and> (debounce_count (soft_event w i (unat itlk)) \<le> counter (soft_event w i (unat itlk)) \<longrightarrow>
            flag (soft_event (set_soft_interlock True toff i itlk w) i (unat itlk)) = 0
          \<and> counter (soft_event (set_soft_interlock True toff i itlk w) i (unat itlk)) = 0
          \<and> soft_committed (set_soft_interlock True toff i itlk w) i itlk
          \<and> (soft_committed w i itlk \<longrightarrow>
                ps_module (set_soft_interlock True toff i itlk w) = ps_module w
              \<and> turn_off_calls (set_soft_interlock True toff i itlk w) = turn_off_calls w)
          \<and> (\<not> soft_committed w i itlk \<longrightarrow>
                turn_off_calls (set_soft_interlock True toff i itlk w) = Suc (turn_off_calls w)
              \<and> ps_state (ps_module (set_soft_interlock True toff i itlk w) i) = Interlock
              \<and> ps_soft_interlock (ps_module (set_soft_interlock True toff i itlk w) i)
                  = ps_soft_interlock
                      (ps_module (toff i (upd_soft_event i (unat itlk) (\<lambda>e. e\<lparr>flag := 1\<rparr>) w)) i)
                    OR lut_bit_position ! unat itlk))"
proof -
  note nz = lut_bit_position_nonzero [OF k]
  have below: "counter (soft_event w i (unat itlk)) < debounce_count (soft_event w i (unat itlk)) \<longrightarrow>
            set_soft_interlock True toff i itlk w
              = upd_soft_event i (unat itlk) (\<lambda>e. e\<lparr>flag := 1\<rparr>) w"
    using v by (simp add: set_soft_interlock_below)
  have reached: "flag (soft_event (set_soft_interlock True toff i itlk w) i (unat itlk)) = 0
          \<and> counter (soft_event (set_soft_interlock True toff i itlk w) i (unat itlk)) = 0
          \<and> soft_committed (set_soft_interlock True toff i itlk w) i itlk
          \<and> (soft_committed w i itlk \<longrightarrow>
                ps_module (set_soft_interlock True toff i itlk w) = ps_module w
              \<and> turn_off_calls (set_soft_interlock True toff i itlk w) = turn_off_calls w)
          \<and> (\<not> soft_committed w i itlk \<longrightarrow>
                turn_off_calls (set_soft_interlock True toff i itlk w) = Suc (turn_off_calls w)
              \<and> ps_state (ps_module (set_soft_interlock True toff i itlk w) i) = Interlock
              \<and> ps_soft_interlock (ps_module (set_soft_interlock True toff i itlk w) i)
                  = ps_soft_interlock
                      (ps_module (toff i (upd_soft_event i (unat itlk) (\<lambda>e. e\<lparr>flag := 1\<rparr>) w)) i)
                    OR lut_bit_position ! unat itlk)"
    if b: "debounce_count (soft_event w i (unat itlk)) \<le> counter (soft_event w i (unat itlk))"
  proof (cases "soft_committed w i itlk")
    case True
    then show ?thesis
      by (simp add: set_soft_interlock_latched [OF v b True]) (simp add: soft_committed_def)
  next
    case False
    then show ?thesis using nz
      by (simp add: set_soft_interlock_commit [OF v b False])
        (simp add: soft_committed_def or_and_bit call_turn_off_def)
  qed
  from below reached show ?thesis by blast
qed


text \<open>One pass of the debouncing loop.\<close>

lemma debounce_fold:
  "event (fold (\<lambda>i il'. il'\<lparr>event := (event il')(i := debounce_event (event il' i))\<rparr>) [0..<m] il) k
     = (if k < m then debounce_event (event il k) else event il k)
   \<and> num_events (fold (\<lambda>i il'. il'\<lparr>event := (event il')(i := debounce_event (event il' i))\<rparr>)
        [0..<m] il) = num_events il"
  by (induction m) auto

lemma debounce_interlocks_simps:
  "event (debounce_interlocks il) k
     = (if k < unat (num_events il) then debounce_event (event il k) else event il k)"
  "num_events (debounce_interlocks il) = num_events il"
  by (simp_all add: debounce_interlocks_def debounce_fold)

lemma run_interlocks_debouncing_simps:
  "ps_module (run_interlocks_debouncing i w) = ps_module w"
  "turn_off_calls (run_interlocks_debouncing i w) = turn_off_calls w"
  "timebase_flag (g_event_manager (run_interlocks_debouncing i w) i) = 0"
  "num_events (hard_interlocks (g_event_manager (run_interlocks_debouncing i w) j))
     = num_events (hard_interlocks (g_event_manager w j))"
  "num_events (soft_interlocks (g_event_manager (run_interlocks_debouncing i w) j))
     = num_events (soft_interlocks (g_event_manager w j))"
  by (simp_all add: run_interlocks_debouncing_def Let_def debounce_interlocks_simps)


lemma run_interlocks_debouncing_event:
  assumes "timebase_flag (g_event_manager w i) \<noteq> 0"
  shows "hard_event (run_interlocks_debouncing i w) i k
           = (if k < unat (num_events (hard_interlocks (g_event_manager w i)))
              then debounce_event (hard_event w i k) else hard_event w i k)"
    and "soft_event (run_interlocks_debouncing i w) i k
           = (if k < unat (num_events (soft_interlocks (g_event_manager w i)))
              then debounce_event (soft_event w i k) else soft_event w i k)"
  using assms
  by (simp_all add: run_interlocks_debouncing_def Let_def hard_event_def soft_event_def
      debounce_interlocks_simps)

lemma SET_INTERLOCKS_TIMEBASE_FLAG_simps:
  "ps_module (SET_INTERLOCKS_TIMEBASE_FLAG i w) = ps_module w"
  "turn_off_calls (SET_INTERLOCKS_TIMEBASE_FLAG i w) = turn_off_calls w"
  "timebase_flag (g_event_manager (SET_INTERLOCKS_TIMEBASE_FLAG i w) i) = 1"
  "hard_interlocks (g_event_manager (SET_INTERLOCKS_TIMEBASE_FLAG i w) j)
     = hard_interlocks (g_event_manager w j)"
  "soft_interlocks (g_event_manager (SET_INTERLOCKS_TIMEBASE_FLAG i w) j)
     = soft_interlocks (g_event_manager w j)"
  "hard_event (SET_INTERLOCKS_TIMEBASE_FLAG i w) = hard_event w"
  "soft_event (SET_INTERLOCKS_TIMEBASE_FLAG i w) = soft_event w"
  by (simp_all add: SET_INTERLOCKS_TIMEBASE_FLAG_def hard_event_def soft_event_def fun_eq_iff)

lemma timebase_period_simps:
  "ps_module (timebase_period i w) = ps_module w"
  "turn_off_calls (timebase_period i w) = turn_off_calls w"
  "timebase_flag (g_event_manager (timebase_period i w) i) = 0"
  "num_events (hard_interlocks (g_event_manager (timebase_period i w) i))
     = num_events (hard_interlocks (g_event_manager w i))"
  "num_events (soft_interlocks (g_event_manager (timebase_period i w) i))
     = num_events (soft_interlocks (g_event_manager w i))"
  "hard_event (timebase_period i w) i k
     = (if k < unat (num_events (hard_interlocks (g_event_manager w i)))
        then debounce_event (hard_event w i k) else hard_event w i k)"
  "soft_event (timebase_period i w) i k
     = (if k < unat (num_events (soft_interlocks (g_event_manager w i)))
        then debounce_event (soft_event w i k) else soft_event w i k)"
  by (simp_all add: timebase_period_def run_interlocks_debouncing_simps
      run_interlocks_debouncing_event SET_INTERLOCKS_TIMEBASE_FLAG_simps)


text \<open>Events of the example states.\<close>

lemma world_running_events:
  "hard_event world_running = hard_event world_0"
  "soft_event world_running = soft_event world_0"
  "g_event_manager world_running = g_event_manager world_0"
  "turn_off_calls world_running = 0"
  "ps_hard_interlock (ps_module world_running 0) = 0"
  "ps_soft_interlock (ps_module world_running 0) = 0"
  "ps_state (ps_module world_running 0) = SlowRef"
  by (simp_all add: world_running_def hard_event_def soft_event_def fun_eq_iff) 
     (simp_all add: world_0_def)

lemma world_debounced_events:
  "hard_event world_debounced 0 0 = \<lparr>flag = 1, counter = 2, debounce_count = 2, reset_count = 5\<rparr>"
  "soft_event world_debounced 0 0 = \<lparr>flag = 1, counter = 2, debounce_count = 2, reset_count = 5\<rparr>"
  "num_events (hard_interlocks (g_event_manager world_debounced 0)) = 2"
  "num_events (soft_interlocks (g_event_manager world_debounced 0)) = 1"
  "ps_module world_debounced = ps_module world_running"
  "turn_off_calls world_debounced = 0"
  by (simp_all add: world_debounced_def timebase_period_simps world_running_events world_0_events
      set_hard_interlock_below set_soft_interlock_below debounce_event_def
      word_le_nat_alt word_less_nat_alt)


text \<open>
  C3. For a valid interlock (below the module's number of events and below 32) and
  with interlocks compiled in (\<^verbatim>\<open>USE_ITLK\<close>), \<open>set_hard_interlock\<close> sets the flag and
  nothing else while the counter is below the debounce count. Once the counter has
  reached it, the call clears flag and counter and leaves the interlock's bit in the
  module's bitmask; if the bit was there already, the module and the number of
  \<^verbatim>\<open>turn_off\<close> calls are as before; otherwise \<^verbatim>\<open>turn_off\<close> is called once, the state
  becomes \<open>Interlock\<close> and the bit is OR'd into the mask. Any number of further calls
  for the same interlock, with nothing in between, leaves the module as the first call
  left it and calls \<^verbatim>\<open>turn_off\<close> no more: in all, at most one call. The same holds of
  \<open>set_soft_interlock\<close>.
\<close>

theorem set_interlock_commits_once:
  assumes "unat itlk < 32"
  shows "(unat itlk < unat (num_events (hard_interlocks (g_event_manager w i))) \<longrightarrow>
          (counter (hard_event w i (unat itlk)) < debounce_count (hard_event w i (unat itlk)) \<longrightarrow>
             set_hard_interlock True toff i itlk w
               = upd_hard_event i (unat itlk) (\<lambda>e. e\<lparr>flag := 1\<rparr>) w)
        \<and> (debounce_count (hard_event w i (unat itlk)) \<le> counter (hard_event w i (unat itlk)) \<longrightarrow>
             flag (hard_event (set_hard_interlock True toff i itlk w) i (unat itlk)) = 0
           \<and> counter (hard_event (set_hard_interlock True toff i itlk w) i (unat itlk)) = 0
           \<and> hard_committed (set_hard_interlock True toff i itlk w) i itlk
           \<and> (hard_committed w i itlk \<longrightarrow>
                 ps_module (set_hard_interlock True toff i itlk w) = ps_module w
               \<and> turn_off_calls (set_hard_interlock True toff i itlk w) = turn_off_calls w)
           \<and> (\<not> hard_committed w i itlk \<longrightarrow>
                 turn_off_calls (set_hard_interlock True toff i itlk w) = Suc (turn_off_calls w)
               \<and> ps_state (ps_module (set_hard_interlock True toff i itlk w) i) = Interlock
               \<and> ps_hard_interlock (ps_module (set_hard_interlock True toff i itlk w) i)
                   = ps_hard_interlock
                       (ps_module (toff i (upd_hard_event i (unat itlk) (\<lambda>e. e\<lparr>flag := 1\<rparr>) w)) i)
                     OR lut_bit_position ! unat itlk)))
     \<and> ps_module ((set_hard_interlock True toff i itlk ^^ Suc m) w)
         = ps_module (set_hard_interlock True toff i itlk w)
     \<and> turn_off_calls ((set_hard_interlock True toff i itlk ^^ Suc m) w)
         = turn_off_calls (set_hard_interlock True toff i itlk w)
     \<and> turn_off_calls ((set_hard_interlock True toff i itlk ^^ m) w) \<le> Suc (turn_off_calls w)
     \<and> (unat itlk < unat (num_events (soft_interlocks (g_event_manager w i))) \<longrightarrow>
          (counter (soft_event w i (unat itlk)) < debounce_count (soft_event w i (unat itlk)) \<longrightarrow>
             set_soft_interlock True toff i itlk w
               = upd_soft_event i (unat itlk) (\<lambda>e. e\<lparr>flag := 1\<rparr>) w)
        \<and> (debounce_count (soft_event w i (unat itlk)) \<le> counter (soft_event w i (unat itlk)) \<longrightarrow>
             flag (soft_event (set_soft_interlock True toff i itlk w) i (unat itlk)) = 0
           \<and> counter (soft_event (set_soft_interlock True toff i itlk w) i (unat itlk)) = 0
           \<and> soft_committed (set_soft_interlock True toff i itlk w) i itlk
           \<and> (soft_committed w i itlk \<longrightarrow>
                 ps_module (set_soft_interlock True toff i itlk w) = ps_module w
               \<and> turn_off_calls (set_soft_interlock True toff i itlk w) = turn_off_calls w)
           \<and> (\<not> soft_committed w i itlk \<longrightarrow>
                 turn_off_calls (set_soft_interlock True toff i itlk w) = Suc (turn_off_calls w)
               \<and> ps_state (ps_module (set_soft_interlock True toff i itlk w) i) = Interlock
               \<and> ps_soft_interlock (ps_module (set_soft_interlock True toff i itlk w) i)
                   = ps_soft_interlock
                       (ps_module (toff i (upd_soft_event i (unat itlk) (\<lambda>e. e\<lparr>flag := 1\<rparr>) w)) i)
                     OR lut_bit_position ! unat itlk)))
     \<and> ps_module ((set_soft_interlock True toff i itlk ^^ Suc m) w)
         = ps_module (set_soft_interlock True toff i itlk w)
     \<and> turn_off_calls ((set_soft_interlock True toff i itlk ^^ Suc m) w)
         = turn_off_calls (set_soft_interlock True toff i itlk w)
     \<and> turn_off_calls ((set_soft_interlock True toff i itlk ^^ m) w) \<le> Suc (turn_off_calls w)"
  using set_hard_interlock_effect [OF assms, where w = w and i = i and toff = toff]
    set_hard_interlock_raises [OF assms, where u = True and toff = toff and i = i and m = m and w = w]
    set_soft_interlock_effect [OF assms, where w = w and i = i and toff = toff]
    set_soft_interlock_raises [OF assms, where u = True and toff = toff and i = i and m = m and w = w]
  by blast




lemma world_interlocked_events:
  "hard_event world_interlocked = hard_event world_0"
  "soft_event world_interlocked = soft_event world_0"
  "g_event_manager world_interlocked = g_event_manager world_0"
  "ps_hard_interlock (ps_module world_interlocked 0) = 3"
  "ps_soft_interlock (ps_module world_interlocked 0) = 1"
  by (simp_all add: world_interlocked_def hard_event_def soft_event_def fun_eq_iff)


lemma world_interlocked_hard_1:
  "unat (1::u32) < 32"
  "unat (1::u32) < unat (num_events (hard_interlocks (g_event_manager world_interlocked 0)))"
  "debounce_count (hard_event world_interlocked 0 (unat (1::u32)))
     \<le> counter (hard_event world_interlocked 0 (unat (1::u32)))"
  "hard_committed world_interlocked 0 1"
  using world_0_events(2,4)
  by (simp_all add: world_interlocked_events hard_committed_def lut_bit_position_def)

lemma world_running_0:
  "unat (0::u32) < 32"
  "unat (0::u32) < unat (num_events (hard_interlocks (g_event_manager world_running 0)))"
  "counter (hard_event world_running 0 (unat (0::u32)))
     < debounce_count (hard_event world_running 0 (unat (0::u32)))"
  "unat (0::u32) < unat (num_events (soft_interlocks (g_event_manager world_running 0)))"
  "counter (soft_event world_running 0 (unat (0::u32)))
     < debounce_count (soft_event world_running 0 (unat (0::u32)))"
  by (simp_all add: world_running_events world_0_events word_less_nat_alt)

lemma world_debounced_0:
  "unat (0::u32) < unat (num_events (hard_interlocks (g_event_manager world_debounced 0)))"
  "debounce_count (hard_event world_debounced 0 (unat (0::u32)))
     \<le> counter (hard_event world_debounced 0 (unat (0::u32)))"
  "\<not> hard_committed world_debounced 0 0"
  "unat (0::u32) < unat (num_events (soft_interlocks (g_event_manager world_debounced 0)))"
  "debounce_count (soft_event world_debounced 0 (unat (0::u32)))
     \<le> counter (soft_event world_debounced 0 (unat (0::u32)))"
  "\<not> soft_committed world_debounced 0 0"
  "timebase_flag (g_event_manager world_debounced 0) = 0"
  by (simp_all add: world_debounced_events world_running_events hard_committed_def
      soft_committed_def)
    (simp_all add: world_debounced_def timebase_period_simps)

theorem set_interlock_commits_once_witness:
  "unat (0::u32) < 32
   \<and> unat (0::u32) < unat (num_events (hard_interlocks (g_event_manager world_running 0)))
   \<and> counter (hard_event world_running 0 (unat (0::u32)))
       < debounce_count (hard_event world_running 0 (unat (0::u32)))
   \<and> set_hard_interlock True (fap_4p_turn_off True (\<lambda>u. u)) 0 0 world_running
       = upd_hard_event 0 (unat (0::u32)) (\<lambda>e. e\<lparr>flag := 1\<rparr>) world_running
   \<and> unat (0::u32) < unat (num_events (soft_interlocks (g_event_manager world_running 0)))
   \<and> counter (soft_event world_running 0 (unat (0::u32)))
       < debounce_count (soft_event world_running 0 (unat (0::u32)))
   \<and> set_soft_interlock True (fap_4p_turn_off True (\<lambda>u. u)) 0 0 world_running
       = upd_soft_event 0 (unat (0::u32)) (\<lambda>e. e\<lparr>flag := 1\<rparr>) world_running
   \<and> unat (0::u32) < unat (num_events (hard_interlocks (g_event_manager world_debounced 0)))
   \<and> debounce_count (hard_event world_debounced 0 (unat (0::u32)))
       \<le> counter (hard_event world_debounced 0 (unat (0::u32)))
   \<and> \<not> hard_committed world_debounced 0 0
   \<and> turn_off_calls (set_hard_interlock True (fap_4p_turn_off True (\<lambda>u. u)) 0 0 world_debounced)
       = Suc (turn_off_calls world_debounced)
   \<and> ps_state (ps_module (set_hard_interlock True (fap_4p_turn_off True (\<lambda>u. u)) 0 0 world_debounced) 0) = Interlock
   \<and> hard_committed (set_hard_interlock True (fap_4p_turn_off True (\<lambda>u. u)) 0 0 world_debounced) 0 0
   \<and> turn_off_calls ((set_hard_interlock True (fap_4p_turn_off True (\<lambda>u. u)) 0 0 ^^ Suc 2) world_debounced)
       = turn_off_calls (set_hard_interlock True (fap_4p_turn_off True (\<lambda>u. u)) 0 0 world_debounced)
   \<and> unat (0::u32) < unat (num_events (soft_interlocks (g_event_manager world_debounced 0)))
   \<and> debounce_count (soft_event world_debounced 0 (unat (0::u32)))
       \<le> counter (soft_event world_debounced 0 (unat (0::u32)))
   \<and> \<not> soft_committed world_debounced 0 0
   \<and> turn_off_calls (set_soft_interlock True (fap_4p_turn_off True (\<lambda>u. u)) 0 0 world_debounced)
       = Suc (turn_off_calls world_debounced)
   \<and> soft_committed (set_soft_interlock True (fap_4p_turn_off True (\<lambda>u. u)) 0 0 world_debounced) 0 0
   \<and> unat (1::u32) < 32
   \<and> unat (1::u32) < unat (num_events (hard_interlocks (g_event_manager world_interlocked 0)))
   \<and> debounce_count (hard_event world_interlocked 0 (unat (1::u32)))
       \<le> counter (hard_event world_interlocked 0 (unat (1::u32)))
   \<and> hard_committed world_interlocked 0 1
   \<and> ps_module (set_hard_interlock True (fap_4p_turn_off True (\<lambda>u. u)) 0 1 world_interlocked) = ps_module world_interlocked
   \<and> turn_off_calls (set_hard_interlock True (fap_4p_turn_off True (\<lambda>u. u)) 0 1 world_interlocked)
       = turn_off_calls world_interlocked"
  using set_interlock_commits_once [where itlk = 0 and w = world_running and i = 0
      and toff = "(fap_4p_turn_off True (\<lambda>u. u))" and m = 2]
    set_interlock_commits_once [where itlk = 0 and w = world_debounced and i = 0
      and toff = "(fap_4p_turn_off True (\<lambda>u. u))" and m = 2]
    set_interlock_commits_once [where itlk = 1 and w = world_interlocked and i = 0
      and toff = "(fap_4p_turn_off True (\<lambda>u. u))" and m = 2]
    world_running_0 world_debounced_0 world_interlocked_hard_1
  by blast



section \<open>Properties of the power-supply modules\<close>

lemma statements_Nil [simp]: "statements [] w = w"
  by (simp add: statements_def)

lemma statements_Cons [simp]: "statements (f # fs) w = statements fs (f w)"
  by (simp add: statements_def)

text \<open>
  C5. \<open>reset_interlocks\<close> clears the hard and soft interlock bitmasks in every state.
  It sets the operating state to \<open>Off\<close> exactly when the state is below
  \<open>Initializing\<close> in the order of the enumeration (that is, \<open>Off\<close> or \<open>Interlock\<close>);
  a state at or above \<open>Initializing\<close> is left as it is. The FAC-2P4S AC/DC module does
  the same for its two modules, on the state of module A.
\<close>

theorem reset_interlocks_state_rule:
  "ps_hard_interlock (ps_module (fap_4p_reset_interlocks gpdi d w) 0) = 0
   \<and> ps_soft_interlock (ps_module (fap_4p_reset_interlocks gpdi d w) 0) = 0
   \<and> ps_state (ps_module (fap_4p_reset_interlocks gpdi d w) 0)
       = (if state_ord (ps_state (ps_module w 0)) < state_ord Initializing then Off
          else ps_state (ps_module w 0))
   \<and> (\<forall>i\<in>{MOD_A_ID, MOD_B_ID}.
         ps_hard_interlock (ps_module (fac_2p4s_acdc_reset_interlocks d w) i) = 0
       \<and> ps_soft_interlock (ps_module (fac_2p4s_acdc_reset_interlocks d w) i) = 0)
   \<and> ps_state (ps_module (fac_2p4s_acdc_reset_interlocks d w) MOD_A_ID)
       = (if state_ord (ps_state (ps_module w MOD_A_ID)) < state_ord Initializing then Off
          else ps_state (ps_module w MOD_A_ID))"
  by (simp add: fap_4p_reset_interlocks_def fac_2p4s_acdc_reset_interlocks_def Let_def
      upd_ps_module_def pulse_contactor_def SET_GPDO_def CLEAR_GPDO_def MOD_A_ID_def MOD_B_ID_def)

text \<open>Frame and effect of the DSP resets.\<close>

lemma write_sig_frame [simp]:
  "dsp_srlim (write_sig p v w) = dsp_srlim w"
  "dsp_error (write_sig p v w) = dsp_error w"
  "dsp_pi (write_sig p v w) = dsp_pi w"
  "pwm_output_enabled (write_sig p v w) = pwm_output_enabled w"
  "pwm_duty_chA (write_sig p v w) = pwm_duty_chA w"
  "gpdo (write_sig p v w) = gpdo w"
  "wfmref (write_sig p v w) = wfmref w"
  "enable (siggen (write_sig p v w)) = enable (siggen w)"
  "ps_state (ps_module (write_sig p v w) j) = ps_state (ps_module w j)"
  by (cases p; simp add: write_sig_def upd_ps_module_def)+

lemma read_write_sig [simp]:
  "read_sig p (write_sig q v w) = (if p = q then v else read_sig p w)"
  by (cases p; cases q; simp add: read_sig_def write_sig_def upd_ps_module_def)

lemma read_sig_frame [simp]:
  "read_sig p (w\<lparr>dsp_srlim := a\<rparr>) = read_sig p w"
  "read_sig p (w\<lparr>dsp_pi := b\<rparr>) = read_sig p w"
  "read_sig p (w\<lparr>wfmref := c\<rparr>) = read_sig p w"
  "read_sig p (w\<lparr>siggen := disable_siggen (siggen w)\<rparr>) = read_sig p w"
  by (cases p; simp add: read_sig_def disable_siggen_def)+


lemma reset_dsp_srlim_simps [simp]:
  "dsp_srlim (reset_dsp_srlim i w) = (dsp_srlim w)(i := (dsp_srlim w i)\<lparr>srlim_last_out := 0\<rparr>)"
  "dsp_error (reset_dsp_srlim i w) = dsp_error w"
  "dsp_pi (reset_dsp_srlim i w) = dsp_pi w"
  "pwm_output_enabled (reset_dsp_srlim i w) = pwm_output_enabled w"
  "pwm_duty_chA (reset_dsp_srlim i w) = pwm_duty_chA w"
  "gpdo (reset_dsp_srlim i w) = gpdo w"
  "wfmref (reset_dsp_srlim i w) = wfmref w"
  "enable (siggen (reset_dsp_srlim i w)) = enable (siggen w)"
  "ps_state (ps_module (reset_dsp_srlim i w) j) = ps_state (ps_module w j)"
  "read_sig p (reset_dsp_srlim i w) = (if p = srlim_out (dsp_srlim w i) then 0 else read_sig p w)"
  by (simp_all add: reset_dsp_srlim_def)

lemma reset_dsp_error_simps [simp]:
  "dsp_srlim (reset_dsp_error i w) = dsp_srlim w"
  "dsp_error (reset_dsp_error i w) = dsp_error w"
  "dsp_pi (reset_dsp_error i w) = dsp_pi w"
  "pwm_output_enabled (reset_dsp_error i w) = pwm_output_enabled w"
  "pwm_duty_chA (reset_dsp_error i w) = pwm_duty_chA w"
  "gpdo (reset_dsp_error i w) = gpdo w"
  "wfmref (reset_dsp_error i w) = wfmref w"
  "enable (siggen (reset_dsp_error i w)) = enable (siggen w)"
  "ps_state (ps_module (reset_dsp_error i w) j) = ps_state (ps_module w j)"
  "read_sig p (reset_dsp_error i w) = (if p = error_out (dsp_error w i) then 0 else read_sig p w)"
  by (simp_all add: reset_dsp_error_def)

lemma reset_dsp_pi_simps [simp]:
  "dsp_srlim (reset_dsp_pi i w) = dsp_srlim w"
  "dsp_error (reset_dsp_pi i w) = dsp_error w"
  "dsp_pi (reset_dsp_pi i w) = (dsp_pi w)(i := (dsp_pi w i)\<lparr>u_int := 0\<rparr>)"
  "pwm_output_enabled (reset_dsp_pi i w) = pwm_output_enabled w"
  "pwm_duty_chA (reset_dsp_pi i w) = pwm_duty_chA w"
  "gpdo (reset_dsp_pi i w) = gpdo w"
  "wfmref (reset_dsp_pi i w) = wfmref w"
  "enable (siggen (reset_dsp_pi i w)) = enable (siggen w)"
  "ps_state (ps_module (reset_dsp_pi i w) j) = ps_state (ps_module w j)"
  "read_sig p (reset_dsp_pi i w) = (if p = pi_out (dsp_pi w i) then 0 else read_sig p w)"
  by (simp_all add: reset_dsp_pi_def)

lemma reset_controller_assignments_simps [simp]:
  "dsp_srlim (reset_controller_assignments ls w) = dsp_srlim w"
  "dsp_error (reset_controller_assignments ls w) = dsp_error w"
  "dsp_pi (reset_controller_assignments ls w) = dsp_pi w"
  "pwm_output_enabled (reset_controller_assignments ls w) = pwm_output_enabled w"
  "gpdo (reset_controller_assignments ls w) = gpdo w"
  "wfmref (reset_controller_assignments ls w) = wfmref w"
  "siggen (reset_controller_assignments ls w) = siggen w"
  "ps_state (ps_module (reset_controller_assignments ls w) j) = ps_state (ps_module w j)"
  "i < 8 \<Longrightarrow> pwm_duty_chA (reset_controller_assignments ls w) i = 0"
  "read_sig (Ps_setpoint 0) (reset_controller_assignments ls w) = 0"
  "read_sig (Ps_reference 0) (reset_controller_assignments ls w) = 0"
  by (simp_all add: reset_controller_assignments_def set_pwm_duty_chA_def upd_ps_module_def read_sig_def) 

lemma reset_controller_unfold:
  "fap_4p_reset_controller ls rw w =
     (let w1 = reset_dsp_srlim 2 (reset_dsp_srlim 1 (reset_dsp_pi 4 (reset_dsp_pi 3 (reset_dsp_pi 2
                 (reset_dsp_pi 1 (reset_dsp_pi 0 (reset_dsp_error 0 (reset_dsp_srlim 0 (reset_controller_assignments ls w)))))))));
          w2 = w1\<lparr>siggen := disable_siggen (siggen w1)\<rparr>
      in w2\<lparr>wfmref := rw (wfmref w2)\<rparr>)"
  by (simp add: fap_4p_reset_controller_def reset_controller_assignments_def Let_def)

lemma reset_controller_simps:
  "pwm_output_enabled (fap_4p_reset_controller ls rw w) = pwm_output_enabled w"
  "gpdo (fap_4p_reset_controller ls rw w) = gpdo w"
  "wfmref (fap_4p_reset_controller ls rw w) = rw (wfmref w)"
  "enable (siggen (fap_4p_reset_controller ls rw w)) = 0"
  "ps_state (ps_module (fap_4p_reset_controller ls rw w) j) = ps_state (ps_module w j)"
  "i < 8 \<Longrightarrow> pwm_duty_chA (fap_4p_reset_controller ls rw w) i = 0"
  "srlim_out (dsp_srlim (fap_4p_reset_controller ls rw w) i) = srlim_out (dsp_srlim w i)"
  "error_out (dsp_error (fap_4p_reset_controller ls rw w) i) = error_out (dsp_error w i)"
  "pi_out (dsp_pi (fap_4p_reset_controller ls rw w) i) = pi_out (dsp_pi w i)"
  "i < 3 \<Longrightarrow> srlim_last_out (dsp_srlim (fap_4p_reset_controller ls rw w) i) = 0"
  "i < 5 \<Longrightarrow> u_int (dsp_pi (fap_4p_reset_controller ls rw w) i) = 0"
  by (simp_all add: reset_controller_unfold Let_def disable_siggen_def)

lemma lt3: "i < 3 \<longleftrightarrow> i = 0 \<or> i = 1 \<or> i = (2::nat)"
  by arith

lemma lt5: "i < 5 \<longleftrightarrow> i = 0 \<or> i = 1 \<or> i = 2 \<or> i = 3 \<or> i = (4::nat)"
  by arith

lemma reset_controller_outputs:
  "i < 3 \<Longrightarrow> read_sig (srlim_out (dsp_srlim w i)) (fap_4p_reset_controller ls rw w) = 0"
  "read_sig (error_out (dsp_error w 0)) (fap_4p_reset_controller ls rw w) = 0"
  "i < 5 \<Longrightarrow> read_sig (pi_out (dsp_pi w i)) (fap_4p_reset_controller ls rw w) = 0"
  "read_sig (Ps_setpoint 0) (fap_4p_reset_controller ls rw w) = 0"
  "read_sig (Ps_reference 0) (fap_4p_reset_controller ls rw w) = 0"
  by (auto simp add: reset_controller_unfold Let_def lt3 lt5)

lemma set_ps_state_frame:
  "pwm_output_enabled (upd_ps_module i (\<lambda>m. m\<lparr>ps_state := st\<rparr>) w) = pwm_output_enabled w"
  "pwm_duty_chA (upd_ps_module i (\<lambda>m. m\<lparr>ps_state := st\<rparr>) w) = pwm_duty_chA w"
  "gpdo (upd_ps_module i (\<lambda>m. m\<lparr>ps_state := st\<rparr>) w) = gpdo w"
  "dsp_srlim (upd_ps_module i (\<lambda>m. m\<lparr>ps_state := st\<rparr>) w) = dsp_srlim w"
  "dsp_error (upd_ps_module i (\<lambda>m. m\<lparr>ps_state := st\<rparr>) w) = dsp_error w"
  "dsp_pi (upd_ps_module i (\<lambda>m. m\<lparr>ps_state := st\<rparr>) w) = dsp_pi w"
  "siggen (upd_ps_module i (\<lambda>m. m\<lparr>ps_state := st\<rparr>) w) = siggen w"
  "wfmref (upd_ps_module i (\<lambda>m. m\<lparr>ps_state := st\<rparr>) w) = wfmref w"
  "ps_setpoint (ps_module (upd_ps_module i (\<lambda>m. m\<lparr>ps_state := st\<rparr>) w) j)
     = ps_setpoint (ps_module w j)"
  "ps_reference (ps_module (upd_ps_module i (\<lambda>m. m\<lparr>ps_state := st\<rparr>) w) j)
     = ps_reference (ps_module w j)"
  "ps_state (ps_module (upd_ps_module i (\<lambda>m. m\<lparr>ps_state := st\<rparr>) w) j)
     = (if j = i then st else ps_state (ps_module w j))"
  by (simp_all add: upd_ps_module_def)

lemma set_ps_state_read_sig:
  "read_sig p (upd_ps_module i (\<lambda>m. m\<lparr>ps_state := st\<rparr>) w) = read_sig p w"
  by (cases p) (simp_all add: read_sig_def upd_ps_module_def)

text \<open>
  C1. From every state, \<open>turn_off\<close> leaves the eight PWM outputs disabled and the
  eight duty cycles at 0, the four contactor outputs cleared, every stage that
  \<open>reset_controller\<close> resets (slew-rate limiters 0 to 2, the error stage, PI
  controllers 0 to 4) with its internal state cleared and its output at zero, the
  signal generator disabled, the waveform reference reset and setpoint and reference
  at 0; the operating state is \<open>Off\<close>, unless it was \<open>Interlock\<close>, which it then
  remains.
\<close>

theorem fap_4p_turn_off_safe_stop:
  "(\<forall>i<8. \<not> pwm_output_enabled (fap_4p_turn_off ls rw d w) i)
   \<and> (\<forall>i<8. pwm_duty_chA (fap_4p_turn_off ls rw d w) i = 0)
   \<and> (\<forall>i\<in>{1, 2, 3, 4}. \<not> gpdo (fap_4p_turn_off ls rw d w) i)
   \<and> (\<forall>i<3. srlim_last_out (dsp_srlim (fap_4p_turn_off ls rw d w) i) = 0
            \<and> read_sig (srlim_out (dsp_srlim (fap_4p_turn_off ls rw d w) i))
                 (fap_4p_turn_off ls rw d w) = 0)
   \<and> read_sig (error_out (dsp_error (fap_4p_turn_off ls rw d w) 0)) (fap_4p_turn_off ls rw d w) = 0
   \<and> (\<forall>i<5. u_int (dsp_pi (fap_4p_turn_off ls rw d w) i) = 0
            \<and> read_sig (pi_out (dsp_pi (fap_4p_turn_off ls rw d w) i))
                 (fap_4p_turn_off ls rw d w) = 0)
   \<and> enable (siggen (fap_4p_turn_off ls rw d w)) = 0
   \<and> wfmref (fap_4p_turn_off ls rw d w) = rw (wfmref w)
   \<and> ps_setpoint (ps_module (fap_4p_turn_off ls rw d w) 0) = 0
   \<and> ps_reference (ps_module (fap_4p_turn_off ls rw d w) 0) = 0
   \<and> ps_state (ps_module (fap_4p_turn_off ls rw d w) 0)
       = (if ps_state (ps_module w 0) = Interlock then Interlock else Off)"
proof -
  define w0 where "w0 = statements [disable_pwm_output 0, disable_pwm_output 1,
      disable_pwm_output 2, disable_pwm_output 3, disable_pwm_output 4, disable_pwm_output 5,
      disable_pwm_output 6, disable_pwm_output 7, CLEAR_GPDO 1, CLEAR_GPDO 2, CLEAR_GPDO 3,
      CLEAR_GPDO 4] w"
  define w1 where "w1 = fap_4p_reset_controller ls rw w0"
  have w0: "\<forall>i<8. \<not> pwm_output_enabled w0 i" "\<forall>i\<in>{1, 2, 3, 4}. \<not> gpdo w0 i"
    "wfmref w0 = wfmref w" "ps_module w0 = ps_module w"
    by (simp_all add: w0_def disable_pwm_output_def CLEAR_GPDO_def)
  have t: "fap_4p_turn_off ls rw d w =
      (if ps_state (ps_module w1 0) \<noteq> Interlock
       then upd_ps_module 0 (\<lambda>m. m\<lparr>ps_state := Off\<rparr>) w1 else w1)"
    by (simp add: fap_4p_turn_off_def w1_def w0_def Let_def)
  have st: "ps_state (ps_module w1 0) = ps_state (ps_module w 0)"
    by (simp add: w1_def reset_controller_simps w0)
  have sp: "ps_setpoint (ps_module w1 0) = 0" "ps_reference (ps_module w1 0) = 0"
    using reset_controller_outputs(4,5) [of ls rw w0] by (simp_all add: w1_def read_sig_def)
  have fin: "fap_4p_turn_off ls rw d w = w1 \<or>
             fap_4p_turn_off ls rw d w = upd_ps_module 0 (\<lambda>m. m\<lparr>ps_state := Off\<rparr>) w1"
    by (simp add: t)
  have pw: "\<forall>i<8. \<not> pwm_output_enabled (fap_4p_turn_off ls rw d w) i"
    using w0(1) by (simp add: t set_ps_state_frame w1_def reset_controller_simps)
  have du: "\<forall>i<8. pwm_duty_chA (fap_4p_turn_off ls rw d w) i = 0"
    by (simp add: t set_ps_state_frame w1_def reset_controller_simps)
  have gp: "\<forall>i\<in>{1, 2, 3, 4}. \<not> gpdo (fap_4p_turn_off ls rw d w) i"
    using w0(2) by (simp add: t set_ps_state_frame w1_def reset_controller_simps)
  have sr: "\<forall>i<3. srlim_last_out (dsp_srlim (fap_4p_turn_off ls rw d w) i) = 0
            \<and> read_sig (srlim_out (dsp_srlim (fap_4p_turn_off ls rw d w) i))
                 (fap_4p_turn_off ls rw d w) = 0"
    using reset_controller_outputs(1) [of _ w0 ls rw]
    by (simp add: t set_ps_state_read_sig set_ps_state_frame w1_def reset_controller_simps)
  have er: "read_sig (error_out (dsp_error (fap_4p_turn_off ls rw d w) 0)) (fap_4p_turn_off ls rw d w) = 0"
    using reset_controller_outputs(2) [of w0 ls rw]
    by (simp add: t set_ps_state_read_sig set_ps_state_frame w1_def reset_controller_simps)
  have pi: "\<forall>i<5. u_int (dsp_pi (fap_4p_turn_off ls rw d w) i) = 0
            \<and> read_sig (pi_out (dsp_pi (fap_4p_turn_off ls rw d w) i))
                 (fap_4p_turn_off ls rw d w) = 0"
    using reset_controller_outputs(3) [of _ w0 ls rw]
    by (simp add: t set_ps_state_read_sig set_ps_state_frame w1_def reset_controller_simps)
  have sg: "enable (siggen (fap_4p_turn_off ls rw d w)) = 0"
    "wfmref (fap_4p_turn_off ls rw d w) = rw (wfmref w)"
    by (simp_all add: t set_ps_state_frame w1_def reset_controller_simps w0)
  have ref: "ps_setpoint (ps_module (fap_4p_turn_off ls rw d w) 0) = 0"
    "ps_reference (ps_module (fap_4p_turn_off ls rw d w) 0) = 0"
    using sp by (simp_all add: t set_ps_state_frame)
  have state: "ps_state (ps_module (fap_4p_turn_off ls rw d w) 0)
       = (if ps_state (ps_module w 0) = Interlock then Interlock else Off)"
    using st by (simp add: t set_ps_state_frame w0)
  from pw du gp sr er pi sg ref state show ?thesis by blast
qed


theorem fap_4p_turn_off_safe_stop_witness:
  "ps_state (ps_module world_running 0) = SlowRef
   \<and> pwm_output_enabled world_running 3
   \<and> \<not> pwm_output_enabled (fap_4p_turn_off True (\<lambda>u. u) 0 world_running) 3
   \<and> pwm_duty_chA (fap_4p_turn_off True (\<lambda>u. u) 0 world_running) 7 = 0
   \<and> \<not> gpdo (fap_4p_turn_off True (\<lambda>u. u) 0 world_running) 4
   \<and> srlim_last_out (dsp_srlim (fap_4p_turn_off True (\<lambda>u. u) 0 world_running) 2) = 0
   \<and> u_int (dsp_pi (fap_4p_turn_off True (\<lambda>u. u) 0 world_running) 4) = 0
   \<and> enable (siggen (fap_4p_turn_off True (\<lambda>u. u) 0 world_running)) = 0
   \<and> ps_state (ps_module (fap_4p_turn_off True (\<lambda>u. u) 0 world_running) 0) = Off
   \<and> ps_state (ps_module world_interlocked 0) = Interlock
   \<and> ps_state (ps_module (fap_4p_turn_off True (\<lambda>u. u) 0 world_interlocked) 0) = Interlock"
  using fap_4p_turn_off_safe_stop [of True "\<lambda>u. u" 0 world_running]
    fap_4p_turn_off_safe_stop [of True "\<lambda>u. u" 0 world_interlocked]
  by (simp add: world_running_def world_interlocked_def)

theorem reset_interlocks_state_rule_witness:
  "ps_state (ps_module world_interlocked 0) = Interlock
   \<and> ps_hard_interlock (ps_module world_interlocked 0) = 3
   \<and> ps_hard_interlock (ps_module (fap_4p_reset_interlocks (\<lambda>_. True) 0 world_interlocked) 0) = 0
   \<and> ps_soft_interlock (ps_module (fap_4p_reset_interlocks (\<lambda>_. True) 0 world_interlocked) 0) = 0
   \<and> ps_state (ps_module (fap_4p_reset_interlocks (\<lambda>_. True) 0 world_interlocked) 0) = Off
   \<and> ps_state (ps_module (fap_4p_reset_interlocks (\<lambda>_. True) 0 world_running) 0) = SlowRef
   \<and> ps_hard_interlock (ps_module (fac_2p4s_acdc_reset_interlocks 0 world_interlocked) MOD_B_ID) = 0
   \<and> ps_state (ps_module (fac_2p4s_acdc_reset_interlocks 0 world_interlocked) MOD_A_ID) = Off
   \<and> ps_state (ps_module (fac_2p4s_acdc_reset_interlocks 0 world_running) MOD_A_ID) = SlowRef"
  using reset_interlocks_state_rule [of "\<lambda>_. True" 0 world_interlocked]
    reset_interlocks_state_rule [of "\<lambda>_. True" 0 world_running]
  by (simp add: world_running_def world_interlocked_def MOD_A_ID_def MOD_B_ID_def)


end
